theory Spec2Isabelle
  imports Main
begin

section \<open>Data model\<close>

text \<open>Python \<open>bytes\<close> are lists of 8-bit characters; \<open>str\<close> is \<open>string\<close>.\<close>

type_synonym bytes = string

text \<open>The frame types of the protocol (the members of \<open>FrameType\<close>).\<close>

datatype FrameType =
    SETUP | LEASE | KEEPALIVE
  | REQUEST_RESPONSE | REQUEST_FNF | REQUEST_STREAM | REQUEST_CHANNEL
  | REQUEST_N | CANCEL | PAYLOAD | ERROR | METADATA_PUSH
  | RESUME | RESUME_OK | EXT

record Payload =
  data :: "bytes option"
  metadata :: "bytes option"

datatype Authentication =
    AuthenticationSimple bytes bytes
  | AuthenticationBearer bytes

text \<open>
  The entries of a parsed composite metadata: \<open>RoutingMetadata\<close> carries its tags,
  \<open>AuthenticationContent\<close> its authentication; any other entry keeps mime type and content.
\<close>

datatype item =
    RoutingMetadata "bytes list"
  | AuthenticationContent Authentication
  | CompositeMetadataItem bytes bytes

type_synonym CompositeMetadata = "item list"

text \<open>The key of a failed dictionary lookup or of a refused insertion.\<close>

datatype key = RouteKey "string option" | FrameTypeKey FrameType

text \<open>
  What Python code raises.  All but the last are instances of \<open>Exception\<close>: the ones
  the routing code raises itself, the built-in ones its expressions raise, and \<open>Raised\<close>
  for an \<open>Exception\<close> that a verifier, a payload mapper, a parser or a route handler
  raises.  \<open>RaisedBase\<close> is a raise that is not an instance of \<open>Exception\<close>:
  \<open>asyncio.CancelledError\<close> thrown into an awaited call (Python 3.8 and later),
  \<open>SystemExit\<close>, \<open>KeyboardInterrupt\<close>.
\<close>

datatype error =
    RSocketEmptyRoute string
  | RSocketUnknownRoute string
  | KeyError key
  | TypeError string
  | IndexError
  | Exception string
  | RSocketFrameFragmentDifferentType
  | Raised string
  | RaisedBase string

text \<open>\<open>isinstance(e, Exception)\<close>, which is what \<open>except Exception\<close> tests.\<close>

definition is_Exception :: "error \<Rightarrow> bool" where
  "is_Exception e = (case e of RaisedBase _ \<Rightarrow> False | _ \<Rightarrow> True)"

text \<open>
  Values that are passed around dynamically: the actual arguments of a call and the
  keyword arguments handed to a route handler.  \<open>VObject\<close> is what a payload mapper
  may turn a payload into.
\<close>

datatype 'o val =
    VFrameType FrameType
  | VStr string
  | VPayload Payload
  | VCompositeMetadata CompositeMetadata
  | VObject 'o

text \<open>The annotation of a parameter, as \<open>inspect.signature\<close> reports it.\<close>

datatype annotation = Parameter_empty | Payload_annotation | Other_annotation string

text \<open>
  A registered route handler is a callable: its \<open>__name__\<close>, the parameters of its
  signature in order, and its body, which receives the keyword arguments and returns
  a result or raises.
\<close>

record ('o, 'r) decorated_method =
  name :: string
  parameters :: "(string \<times> annotation) list"
  body :: "(string \<rightharpoonup> 'o val) \<Rightarrow> error + 'r"

text \<open>What a call leaves behind: the verifier and handler invocations and the log.\<close>

datatype event =
    Verified string Authentication
  | Invoked string
  | Logged error

section \<open>The request router\<close>

text \<open>
  Modelled from the spec: \<open>safe_len\<close> of \<open>rsocket.frame_helpers\<close> is not among the
  sources; the spec and the router's tests treat a null route like an empty one.
\<close>

definition safe_len :: "string option \<Rightarrow> nat" where
  "safe_len v = (case v of None \<Rightarrow> 0 | Some s \<Rightarrow> length s)"

text \<open>
  A route table is a dictionary; the decorator receives the route as the caller passed
  it, a string or \<open>None\<close>, hence the key type.  The decorator either raises and leaves
  the dictionary as it was, or stores the function and returns it.
\<close>

type_synonym ('o, 'r) container = "string option \<rightharpoonup> ('o, 'r) decorated_method"

definition decorator_factory ::
  "('o, 'r) container \<Rightarrow> string option \<Rightarrow> ('o, 'r) decorated_method
    \<Rightarrow> (error + ('o, 'r) decorated_method) \<times> ('o, 'r) container" where
  "decorator_factory container route func =
     (if safe_len route = 0 then (Inl (RSocketEmptyRoute (name func)), container)
      else if container route \<noteq> None then (Inl (KeyError (RouteKey route)), container)
      else (Inr func, container(route \<mapsto> func)))"

record ('o, 'r) Handlers =
  response :: "('o, 'r) decorated_method option"
  stream :: "('o, 'r) decorated_method option"
  channel :: "('o, 'r) decorated_method option"
  fire_and_forget :: "('o, 'r) decorated_method option"
  metadata_push :: "('o, 'r) decorated_method option"

record ('o, 'r) RequestRouter =
  payload_mapper :: "annotation \<Rightarrow> 'o val \<Rightarrow> error + 'o val"
  channel_routes :: "('o, 'r) container"
  stream_routes :: "('o, 'r) container"
  response_routes :: "('o, 'r) container"
  fnf_routes :: "('o, 'r) container"
  metadata_push_routes :: "('o, 'r) container"
  unknown :: "('o, 'r) Handlers"

text \<open>\<open>RequestRouter.__init__\<close>: empty tables, no fallbacks.\<close>

definition init_router ::
  "(annotation \<Rightarrow> 'o val \<Rightarrow> error + 'o val) \<Rightarrow> ('o, 'r) RequestRouter" where
  "init_router mapper =
     \<lparr> payload_mapper = mapper,
       channel_routes = Map.empty, stream_routes = Map.empty,
       response_routes = Map.empty, fnf_routes = Map.empty,
       metadata_push_routes = Map.empty,
       unknown = \<lparr> response = None, stream = None, channel = None,
                   fire_and_forget = None, metadata_push = None \<rparr> \<rparr>"

text \<open>The default payload mapper \<open>lambda cls, _: _\<close>.\<close>

definition default_payload_mapper :: "annotation \<Rightarrow> 'o val \<Rightarrow> error + 'o val" where
  "default_payload_mapper cls p = Inr p"

text \<open>
  \<open>_route_map_by_frame_type\<close> holds references to the five tables, so it always shows
  their current contents; a frame type that is not a key gives \<open>None\<close> here.
\<close>

definition route_map_by_frame_type ::
  "('o, 'r) RequestRouter \<Rightarrow> FrameType \<Rightarrow> ('o, 'r) container option" where
  "route_map_by_frame_type rt frame_type =
     (if frame_type = REQUEST_CHANNEL then Some (channel_routes rt)
      else if frame_type = REQUEST_FNF then Some (fnf_routes rt)
      else if frame_type = REQUEST_STREAM then Some (stream_routes rt)
      else if frame_type = REQUEST_RESPONSE then Some (response_routes rt)
      else if frame_type = METADATA_PUSH then Some (metadata_push_routes rt)
      else None)"

text \<open>
  The registration methods, one per frame type.  \<open>register\<close> is the decorator of the
  table that belongs to the frame type, applied to the function; the five methods of
  the class are its instances.
\<close>

definition router_response ::
  "('o, 'r) RequestRouter \<Rightarrow> string option \<Rightarrow> ('o, 'r) decorated_method
    \<Rightarrow> (error + ('o, 'r) decorated_method) \<times> ('o, 'r) RequestRouter" where
  "router_response rt route func =
     (case decorator_factory (response_routes rt) route func of
        (res, container) \<Rightarrow> (res, rt\<lparr>response_routes := container\<rparr>))"

definition router_stream ::
  "('o, 'r) RequestRouter \<Rightarrow> string option \<Rightarrow> ('o, 'r) decorated_method
    \<Rightarrow> (error + ('o, 'r) decorated_method) \<times> ('o, 'r) RequestRouter" where
  "router_stream rt route func =
     (case decorator_factory (stream_routes rt) route func of
        (res, container) \<Rightarrow> (res, rt\<lparr>stream_routes := container\<rparr>))"

definition router_channel ::
  "('o, 'r) RequestRouter \<Rightarrow> string option \<Rightarrow> ('o, 'r) decorated_method
    \<Rightarrow> (error + ('o, 'r) decorated_method) \<times> ('o, 'r) RequestRouter" where
  "router_channel rt route func =
     (case decorator_factory (channel_routes rt) route func of
        (res, container) \<Rightarrow> (res, rt\<lparr>channel_routes := container\<rparr>))"

definition router_fire_and_forget ::
  "('o, 'r) RequestRouter \<Rightarrow> string option \<Rightarrow> ('o, 'r) decorated_method
    \<Rightarrow> (error + ('o, 'r) decorated_method) \<times> ('o, 'r) RequestRouter" where
  "router_fire_and_forget rt route func =
     (case decorator_factory (fnf_routes rt) route func of
        (res, container) \<Rightarrow> (res, rt\<lparr>fnf_routes := container\<rparr>))"

definition router_metadata_push ::
  "('o, 'r) RequestRouter \<Rightarrow> string option \<Rightarrow> ('o, 'r) decorated_method
    \<Rightarrow> (error + ('o, 'r) decorated_method) \<times> ('o, 'r) RequestRouter" where
  "router_metadata_push rt route func =
     (case decorator_factory (metadata_push_routes rt) route func of
        (res, container) \<Rightarrow> (res, rt\<lparr>metadata_push_routes := container\<rparr>))"

text \<open>Registration by frame type; a frame type without a table registers nothing.\<close>

definition register ::
  "('o, 'r) RequestRouter \<Rightarrow> FrameType \<Rightarrow> string option \<Rightarrow> ('o, 'r) decorated_method
    \<Rightarrow> ((error + ('o, 'r) decorated_method) \<times> ('o, 'r) RequestRouter) option" where
  "register rt frame_type route func =
     (if frame_type = REQUEST_RESPONSE then Some (router_response rt route func)
      else if frame_type = REQUEST_STREAM then Some (router_stream rt route func)
      else if frame_type = REQUEST_CHANNEL then Some (router_channel rt route func)
      else if frame_type = REQUEST_FNF then Some (router_fire_and_forget rt route func)
      else if frame_type = METADATA_PUSH then Some (router_metadata_push rt route func)
      else None)"

text \<open>The fallback registrations \<open>*_unknown\<close>.\<close>

definition response_unknown ::
  "('o, 'r) RequestRouter \<Rightarrow> ('o, 'r) decorated_method \<Rightarrow> ('o, 'r) RequestRouter" where
  "response_unknown rt func = rt\<lparr>unknown := (unknown rt)\<lparr>response := Some func\<rparr>\<rparr>"

definition stream_unknown ::
  "('o, 'r) RequestRouter \<Rightarrow> ('o, 'r) decorated_method \<Rightarrow> ('o, 'r) RequestRouter" where
  "stream_unknown rt func = rt\<lparr>unknown := (unknown rt)\<lparr>stream := Some func\<rparr>\<rparr>"

definition channel_unknown ::
  "('o, 'r) RequestRouter \<Rightarrow> ('o, 'r) decorated_method \<Rightarrow> ('o, 'r) RequestRouter" where
  "channel_unknown rt func = rt\<lparr>unknown := (unknown rt)\<lparr>channel := Some func\<rparr>\<rparr>"

definition fire_and_forget_unknown ::
  "('o, 'r) RequestRouter \<Rightarrow> ('o, 'r) decorated_method \<Rightarrow> ('o, 'r) RequestRouter" where
  "fire_and_forget_unknown rt func =
     rt\<lparr>unknown := (unknown rt)\<lparr>fire_and_forget := Some func\<rparr>\<rparr>"

definition metadata_push_unknown ::
  "('o, 'r) RequestRouter \<Rightarrow> ('o, 'r) decorated_method \<Rightarrow> ('o, 'r) RequestRouter" where
  "metadata_push_unknown rt func =
     rt\<lparr>unknown := (unknown rt)\<lparr>metadata_push := Some func\<rparr>\<rparr>"

text \<open>\<open>_get_unknown_route\<close>; a frame type outside the chain falls through to \<open>None\<close>.\<close>

definition get_unknown_route ::
  "('o, 'r) RequestRouter \<Rightarrow> FrameType \<Rightarrow> ('o, 'r) decorated_method option" where
  "get_unknown_route rt frame_type =
     (if frame_type = REQUEST_RESPONSE then response (unknown rt)
      else if frame_type = REQUEST_STREAM then stream (unknown rt)
      else if frame_type = REQUEST_CHANNEL then channel (unknown rt)
      else if frame_type = REQUEST_FNF then fire_and_forget (unknown rt)
      else if frame_type = METADATA_PUSH then metadata_push (unknown rt)
      else None)"

text \<open>
  \<open>_collect_route_arguments\<close>: the loop over the parameters of the signature.  The
  variable \<open>payload\<close> is reassigned by the mapper, so a later parameter sees the mapped
  value; a mapper that raises ends the loop.
\<close>

fun collect_parameters ::
  "(annotation \<Rightarrow> 'o val \<Rightarrow> error + 'o val) \<Rightarrow> CompositeMetadata
    \<Rightarrow> (string \<times> annotation) list \<Rightarrow> 'o val \<Rightarrow> (string \<rightharpoonup> 'o val)
    \<Rightarrow> error + (string \<rightharpoonup> 'o val)" where
  "collect_parameters mapper composite_metadata [] payload route_kwargs = Inr route_kwargs"
| "collect_parameters mapper composite_metadata ((parameter, parameter_type) # rest)
      payload route_kwargs =
     (if ''composite_metadata'' = parameter then
        collect_parameters mapper composite_metadata rest payload
          (route_kwargs(''composite_metadata'' \<mapsto> VCompositeMetadata composite_metadata))
      else if parameter_type \<noteq> Payload_annotation \<and> parameter_type \<noteq> Parameter_empty then
        (case mapper parameter_type payload of
           Inl e \<Rightarrow> Inl e
         | Inr mapped \<Rightarrow>
             collect_parameters mapper composite_metadata rest mapped
               (route_kwargs(parameter \<mapsto> mapped)))
      else
        collect_parameters mapper composite_metadata rest payload
          (route_kwargs(parameter \<mapsto> payload)))"

definition collect_route_arguments ::
  "('o, 'r) RequestRouter \<Rightarrow> ('o, 'r) decorated_method \<Rightarrow> Payload \<Rightarrow> CompositeMetadata
    \<Rightarrow> error + (string \<rightharpoonup> 'o val)" where
  "collect_route_arguments rt route_processor payload composite_metadata =
     collect_parameters (payload_mapper rt) composite_metadata
       (parameters route_processor) (VPayload payload) Map.empty"

text \<open>
  \<open>RequestRouter.route\<close>.  Indexing \<open>_route_map_by_frame_type\<close> with a frame type
  that has no table raises \<open>KeyError\<close>.  The result comes with the handler invocation
  it caused, if any.
\<close>

definition route ::
  "('o, 'r) RequestRouter \<Rightarrow> FrameType \<Rightarrow> string \<Rightarrow> Payload \<Rightarrow> CompositeMetadata
    \<Rightarrow> (error + 'r) \<times> event list" where
  "route rt frame_type r payload composite_metadata =
     (case route_map_by_frame_type rt frame_type of
        None \<Rightarrow> (Inl (KeyError (FrameTypeKey frame_type)), [])
      | Some table \<Rightarrow>
          (let route_processor =
                 (if table (Some r) \<noteq> None then table (Some r)
                  else get_unknown_route rt frame_type)
           in case route_processor of
                None \<Rightarrow> (Inl (RSocketUnknownRoute r), [])
              | Some processor \<Rightarrow>
                  (case collect_route_arguments rt processor payload composite_metadata of
                     Inl e \<Rightarrow> (Inl e, [])
                   | Inr route_kwargs \<Rightarrow>
                       (body processor route_kwargs, [Invoked (name processor)]))))"

text \<open>The handlers and the routers used to run the theorems on concrete inputs.\<close>

definition request_response :: "(unit, Payload) decorated_method" where
  "request_response =
     \<lparr> name = ''request_response'',
       parameters = [(''payload'', Parameter_empty), (''composite_metadata'', Parameter_empty)],
       body = (\<lambda>kwargs. Inr \<lparr> data = Some ''result'', metadata = None \<rparr>) \<rparr>"

definition request_response2 :: "(unit, Payload) decorated_method" where
  "request_response2 =
     \<lparr> name = ''request_response2'',
       parameters = [(''payload'', Parameter_empty), (''composite_metadata'', Parameter_empty)],
       body = (\<lambda>kwargs. Inr \<lparr> data = Some ''other'', metadata = None \<rparr>) \<rparr>"

definition router0 :: "(unit, Payload) RequestRouter" where
  "router0 = init_router default_payload_mapper"

definition router1 :: "(unit, Payload) RequestRouter" where
  "router1 = router0\<lparr>response_routes := [Some ''path1'' \<mapsto> request_response]\<rparr>"

section \<open>The routing request handler\<close>

text \<open>
  A call with positional arguments binds them to the parameters of the callee, and
  raises \<open>TypeError\<close> before the body runs when their numbers differ.
\<close>

definition bind_positional :: "string list \<Rightarrow> 'a list \<Rightarrow> error + 'a list" where
  "bind_positional params args =
     (if length args < length params
        then Inl (TypeError ''missing required positional argument'')
      else if length params < length args
        then Inl (TypeError ''too many positional arguments'')
      else Inr args)"

text \<open>The parameters of \<open>RequestRouter.route\<close> after \<open>self\<close>.\<close>

definition route_parameters :: "string list" where
  "route_parameters = [''frame_type'', ''route'', ''payload'', ''composite_metadata'']"

text \<open>
  The body of \<open>route\<close> on bound arguments.  Four arguments of other kinds than the
  declared ones are passed nowhere in the sources; they are reported as a type error.
\<close>

fun route_bound ::
  "('o, 'r) RequestRouter \<Rightarrow> 'o val list \<Rightarrow> (error + 'r) \<times> event list" where
  "route_bound rt [VFrameType frame_type, VStr r, VPayload payload,
                   VCompositeMetadata composite_metadata] =
     route rt frame_type r payload composite_metadata"
| "route_bound rt args = (Inl (TypeError ''unexpected argument''), [])"

definition route_call ::
  "('o, 'r) RequestRouter \<Rightarrow> 'o val list \<Rightarrow> (error + 'r) \<times> event list" where
  "route_call rt args =
     (case bind_positional route_parameters args of
        Inl e \<Rightarrow> (Inl e, [])
      | Inr bound \<Rightarrow> route_bound rt bound)"

text \<open>
  \<open>CompositeMetadata.parse\<close> and \<open>bytes.decode\<close> are not among the sources; the handler
  is modelled over any pair of them, each returning a value or raising.
\<close>

record codec =
  parse :: "bytes option \<Rightarrow> error + CompositeMetadata"
  decode :: "bytes \<Rightarrow> error + string"

type_synonym verifier = "string \<Rightarrow> Authentication \<Rightarrow> error + unit"

record ('o, 'r) RoutingRequestHandler =
  router :: "('o, 'r) RequestRouter"
  authentication_verifier :: "verifier option"
  data_encoding :: "bytes option"
  metadata_encoding :: "bytes option"

text \<open>
  Modelled from the spec: \<open>always_allow_authenticator\<close> of \<open>rsocket.helpers\<close>, the
  default verifier, is not among the sources; it accepts every route and authentication.
\<close>

definition always_allow_authenticator :: verifier where
  "always_allow_authenticator r authentication = Inr ()"

text \<open>\<open>RoutingRequestHandler.__init__\<close>; the encodings are set by \<open>on_setup\<close> only.\<close>

definition init_handler ::
  "('o, 'r) RequestRouter \<Rightarrow> verifier option \<Rightarrow> ('o, 'r) RoutingRequestHandler" where
  "init_handler rt v =
     \<lparr> router = rt, authentication_verifier = v,
       data_encoding = None, metadata_encoding = None \<rparr>"

text \<open>
  Modelled from the spec: the name of the well-known mime type
  \<open>MESSAGE_RSOCKET_COMPOSITE_METADATA\<close>; \<open>WellKnownMimeTypes\<close> is not among the sources.
\<close>

definition MESSAGE_RSOCKET_COMPOSITE_METADATA_name :: bytes where
  "MESSAGE_RSOCKET_COMPOSITE_METADATA_name = ''message/x.rsocket.composite-metadata.v0''"

text \<open>
  \<open>on_setup\<close>.  The \<open>on_setup\<close> of the base class is not among the sources and is a
  parameter: it receives the encodings and the handler and returns or raises.
\<close>

definition on_setup ::
  "(bytes \<Rightarrow> bytes \<Rightarrow> ('o, 'r) RoutingRequestHandler
      \<Rightarrow> (error + unit) \<times> ('o, 'r) RoutingRequestHandler)
    \<Rightarrow> ('o, 'r) RoutingRequestHandler \<Rightarrow> bytes \<Rightarrow> bytes
    \<Rightarrow> (error + unit) \<times> ('o, 'r) RoutingRequestHandler" where
  "on_setup super_on_setup h data_enc metadata_enc =
     (if metadata_enc \<noteq> MESSAGE_RSOCKET_COMPOSITE_METADATA_name then
        (Inl (Exception
           ''Setup frame did not specify composite metadata. required for routing handler''), h)
      else
        super_on_setup data_enc metadata_enc
          (h\<lparr>data_encoding := Some data_enc, metadata_encoding := Some metadata_enc\<rparr>))"

text \<open>\<open>_require_route\<close>: the first tag of the first routing entry, decoded.\<close>

fun require_route :: "(bytes \<Rightarrow> error + string) \<Rightarrow> CompositeMetadata \<Rightarrow> error + string" where
  "require_route dec [] = Inl (Exception ''No route found in request'')"
| "require_route dec (RoutingMetadata tags # rest) =
     (case tags of [] \<Rightarrow> Inl IndexError | tag # _ \<Rightarrow> dec tag)"
| "require_route dec (_ # rest) = require_route dec rest"

text \<open>The loop of \<open>_verify_authentication\<close>, entered when a verifier is configured.\<close>

fun verify_items :: "verifier \<Rightarrow> string \<Rightarrow> CompositeMetadata \<Rightarrow> (error + unit) \<times> event list" where
  "verify_items v r [] = (Inl (Exception ''Authentication required but not provided''), [])"
| "verify_items v r (AuthenticationContent authentication # rest) =
     (v r authentication, [Verified r authentication])"
| "verify_items v r (_ # rest) = verify_items v r rest"

definition verify_authentication ::
  "('o, 'r) RoutingRequestHandler \<Rightarrow> string \<Rightarrow> CompositeMetadata
    \<Rightarrow> (error + unit) \<times> event list" where
  "verify_authentication h r composite_metadata =
     (case authentication_verifier h of
        None \<Rightarrow> (Inr (), [])
      | Some v \<Rightarrow> verify_items v r composite_metadata)"

text \<open>
  \<open>_parse_and_route\<close>.  Its last statement calls \<open>self.router.route\<close> with the three
  arguments \<open>route\<close>, \<open>payload\<close>, \<open>composite_metadata\<close>.
\<close>

definition parse_and_route ::
  "codec \<Rightarrow> ('o, 'r) RoutingRequestHandler \<Rightarrow> Payload \<Rightarrow> (error + 'r) \<times> event list" where
  "parse_and_route c h payload =
     (case parse c (metadata payload) of
        Inl e \<Rightarrow> (Inl e, [])
      | Inr composite_metadata \<Rightarrow>
          (case require_route (decode c) composite_metadata of
             Inl e \<Rightarrow> (Inl e, [])
           | Inr r \<Rightarrow>
               (case verify_authentication h r composite_metadata of
                  (Inl e, evs) \<Rightarrow> (Inl e, evs)
                | (Inr _, evs) \<Rightarrow>
                    (case route_call (router h)
                            [VStr r, VPayload payload, VCompositeMetadata composite_metadata] of
                       (res, evs') \<Rightarrow> (res, evs @ evs')))))"

text \<open>
  What the request methods of the handler return: the handler's own result, Python's
  \<open>None\<close>, or the error carriers built in the \<open>except\<close> branches.
\<close>

datatype 'r reply =
    Result 'r
  | PyNone
  | ErrorFuture error
  | ErrorStream error
  | ErrorStreamNullSubscriber error

text \<open>
  The four request methods.  Each wraps \<open>_parse_and_route\<close> in
  \<open>try: ... except Exception\<close>: a raise that is an instance of \<open>Exception\<close> enters the
  \<open>except\<close> branch, any other raise leaves the method.  \<open>request_fire_and_forget\<close>
  has no \<open>return\<close> statement, so its value is \<open>None\<close> also when the call returns.
\<close>

definition request_channel ::
  "codec \<Rightarrow> ('o, 'r) RoutingRequestHandler \<Rightarrow> Payload \<Rightarrow> (error + 'r reply) \<times> event list" where
  "request_channel c h payload =
     (case parse_and_route c h payload of
        (Inl exception, evs) \<Rightarrow>
          (if is_Exception exception then (Inr (ErrorStreamNullSubscriber exception), evs)
           else (Inl exception, evs))
      | (Inr x, evs) \<Rightarrow> (Inr (Result x), evs))"

definition request_fire_and_forget ::
  "codec \<Rightarrow> ('o, 'r) RoutingRequestHandler \<Rightarrow> Payload \<Rightarrow> (error + 'r reply) \<times> event list" where
  "request_fire_and_forget c h payload =
     (case parse_and_route c h payload of
        (Inl exception, evs) \<Rightarrow>
          (if is_Exception exception then (Inr PyNone, evs @ [Logged exception])
           else (Inl exception, evs))
      | (Inr x, evs) \<Rightarrow> (Inr PyNone, evs))"

definition request_response_method ::
  "codec \<Rightarrow> ('o, 'r) RoutingRequestHandler \<Rightarrow> Payload \<Rightarrow> (error + 'r reply) \<times> event list" where
  "request_response_method c h payload =
     (case parse_and_route c h payload of
        (Inl exception, evs) \<Rightarrow>
          (if is_Exception exception then (Inr (ErrorFuture exception), evs)
           else (Inl exception, evs))
      | (Inr x, evs) \<Rightarrow> (Inr (Result x), evs))"

definition request_stream ::
  "codec \<Rightarrow> ('o, 'r) RoutingRequestHandler \<Rightarrow> Payload \<Rightarrow> (error + 'r reply) \<times> event list" where
  "request_stream c h payload =
     (case parse_and_route c h payload of
        (Inl exception, evs) \<Rightarrow>
          (if is_Exception exception then (Inr (ErrorStream exception), evs)
           else (Inl exception, evs))
      | (Inr x, evs) \<Rightarrow> (Inr (Result x), evs))"

text \<open>
  A stand-in codec for running the handler on concrete requests: it reads the two
  metadata values used below and decodes a tag to itself.
\<close>

definition codec0 :: codec where
  "codec0 =
     \<lparr> parse = (\<lambda>m.
         if m = Some ''route'' then Inr [RoutingMetadata [''path1'']]
         else if m = Some ''route+auth''
           then Inr [RoutingMetadata [''path1''],
                     AuthenticationContent (AuthenticationSimple ''user'' ''12345'')]
         else if m = Some ''auth''
           then Inr [AuthenticationContent (AuthenticationSimple ''user'' ''12345'')]
         else Inl (Raised ''parse'')),
       decode = (\<lambda>b. Inr b) \<rparr>"

text \<open>A verifier that refuses everybody, and one whose await is cancelled.\<close>

definition deny_all :: verifier where
  "deny_all r authentication = Inl (Raised ''denied'')"

definition cancelled :: verifier where
  "cancelled r authentication = Inl (RaisedBase ''CancelledError'')"

text \<open>The router with the table of one frame type replaced (used to state lemmas).\<close>

definition set_route_table ::
  "('o, 'r) RequestRouter \<Rightarrow> FrameType \<Rightarrow> ('o, 'r) container \<Rightarrow> ('o, 'r) RequestRouter" where
  "set_route_table rt frame_type table =
     (if frame_type = REQUEST_RESPONSE then rt\<lparr>response_routes := table\<rparr>
      else if frame_type = REQUEST_STREAM then rt\<lparr>stream_routes := table\<rparr>
      else if frame_type = REQUEST_CHANNEL then rt\<lparr>channel_routes := table\<rparr>
      else if frame_type = REQUEST_FNF then rt\<lparr>fnf_routes := table\<rparr>
      else if frame_type = METADATA_PUSH then rt\<lparr>metadata_push_routes := table\<rparr>
      else rt)"

section \<open>Frames and the channel responder\<close>

text \<open>
  A frame with the fields the modelled code reads.  \<open>frame_class\<close> names the class of
  the frame by its frame type (\<open>RequestChannelFrame\<close> is \<open>REQUEST_CHANNEL\<close>,
  \<open>PayloadFrame\<close> is \<open>PAYLOAD\<close>, and so on).
\<close>

record Frame = Payload +
  frame_class :: FrameType
  stream_id :: nat
  flags_follows :: bool
  flags_complete :: bool
  flags_next :: bool
  initial_request_n :: nat

text \<open>
  The calls \<open>RequestChannelResponder.frame_received\<close> makes on its collaborators.  The
  socket, the subscription and the base class \<open>RequestChannelCommon\<close> are not among the
  sources, so a call is recorded, in order, with its arguments.
\<close>

datatype 's call =
    Send_complete nat
  | Mark_completed_and_finish bool
  | Subscription_request 's nat
  | Complete_remote_subscriber
  | Super_frame_received Frame

record 's RequestChannelResponder =
  responder_stream :: nat
  subscription :: "'s option"

definition frame_received :: "'s RequestChannelResponder \<Rightarrow> Frame \<Rightarrow> 's call list" where
  "frame_received self frame =
     (if frame_class frame = REQUEST_CHANNEL then
        (case subscription self of
           None \<Rightarrow> [Send_complete (responder_stream self), Mark_completed_and_finish True]
         | Some s \<Rightarrow> [Subscription_request s (initial_request_n frame)])
        @ (if flags_complete frame then [Complete_remote_subscriber] else [])
      else [Super_frame_received frame])"

text \<open>An initial REQUEST_CHANNEL frame with demand 5, used to run the theorems.\<close>

definition channel_frame :: "bool \<Rightarrow> Frame" where
  "channel_frame complete =
     \<lparr> data = Some ''123'', metadata = None, frame_class = REQUEST_CHANNEL, stream_id = 1,
       flags_follows = False, flags_complete = complete, flags_next = False,
       initial_request_n = 5 \<rparr>"

section \<open>Fragmentation and the fragment cache\<close>

text \<open>An absent section of a payload counts as the empty byte string.\<close>

definition bytes_of :: "bytes option \<Rightarrow> bytes" where
  "bytes_of b = (case b of None \<Rightarrow> [] | Some x \<Rightarrow> x)"

text \<open>
  Modelled from the spec: \<open>FragmentableFrame.get_next_fragment\<close> (\<open>rsocket.frame\<close>) is
  not among the sources, only its test is.  The spec: a logical frame whose data and
  metadata exceed \<open>fragment_size_bytes\<close> is split into a head frame of its own type and
  continuation PAYLOAD frames; all but the last carry FOLLOWS; metadata precedes data
  in the serialized payload and a split may fall inside a section; a fragment carries
  metadata only for the slice of metadata it contains.  So each call hands out the next
  \<open>fragment_size_bytes\<close> bytes of metadata-then-data, and \<open>None\<close> once all is sent.
  The fields the spec does not mention are those of the logical frame.
\<close>

datatype fragment_generator = Not_started | Remaining bytes bytes | Exhausted

record FragmentableFrame =
  logical_frame :: Frame
  fragment_size_bytes :: nat
  generator :: fragment_generator

definition fragmentable :: "Frame \<Rightarrow> nat \<Rightarrow> FragmentableFrame" where
  "fragmentable frame n =
     \<lparr> logical_frame = frame, fragment_size_bytes = n, generator = Not_started \<rparr>"

definition next_fragment ::
  "FragmentableFrame \<Rightarrow> FrameType \<Rightarrow> bytes \<Rightarrow> bytes \<Rightarrow> Frame option \<times> FragmentableFrame" where
  "next_fragment f cls m d =
     (let n = fragment_size_bytes f;
          metadata_slice = take n m;
          data_slice = take (n - length metadata_slice) d;
          m' = drop n m;
          d' = drop (n - length metadata_slice) d;
          follows = (m' \<noteq> [] \<or> d' \<noteq> [])
      in (Some ((logical_frame f)
                  \<lparr> data := Some data_slice,
                    metadata := (if metadata_slice = [] then None else Some metadata_slice),
                    frame_class := cls,
                    flags_follows := follows \<rparr>),
          f\<lparr>generator := (if follows then Remaining m' d' else Exhausted)\<rparr>))"

definition get_next_fragment :: "FragmentableFrame \<Rightarrow> Frame option \<times> FragmentableFrame" where
  "get_next_fragment f =
     (case generator f of
        Not_started \<Rightarrow>
          next_fragment f (frame_class (logical_frame f))
            (bytes_of (metadata (logical_frame f))) (bytes_of (data (logical_frame f)))
      | Remaining m d \<Rightarrow> next_fragment f PAYLOAD m d
      | Exhausted \<Rightarrow> (None, f))"

text \<open>
  The loop of the tests: call \<open>get_next_fragment\<close> until it returns \<open>None\<close> and collect
  the fragments.  The loop need not end (a fragment size of 0 never makes progress), so
  its result is optional, \<open>None\<close> standing for a loop that runs forever.
\<close>

partial_function (option) all_fragments :: "FragmentableFrame \<Rightarrow> Frame list option" where
  "all_fragments f =
     (case fst (get_next_fragment f) of
        None \<Rightarrow> Some []
      | Some fragment \<Rightarrow>
          Option.bind (all_fragments (snd (get_next_fragment f)))
            (\<lambda>rest. Some (fragment # rest)))"

text \<open>
  Modelled from the spec: \<open>FrameFragmentCache\<close> (\<open>rsocket.frame_fragment_cache\<close>) is not
  among the sources, only its test is.  The spec: the cache is keyed by stream id; the
  accumulator is created on the first FOLLOWS frame; a frame with FOLLOWS is appended
  to it; a frame without FOLLOWS finalizes it and returns the combined frame of the
  head type; a fragment whose type contradicts the first raises
  \<open>FragmentDifferentType\<close>.  Continuation fragments are PAYLOAD frames, so a fragment
  contradicts the head when it is neither a PAYLOAD frame nor of the head's type.
\<close>

type_synonym FrameFragmentCache = "nat \<rightharpoonup> Frame"

definition join :: "bytes option \<Rightarrow> bytes option \<Rightarrow> bytes option" where
  "join a b = (if a = None \<and> b = None then None else Some (bytes_of a @ bytes_of b))"

definition cache_append ::
  "FrameFragmentCache \<Rightarrow> Frame \<Rightarrow> (error + Frame option) \<times> FrameFragmentCache" where
  "cache_append cache frame =
     (case cache (stream_id frame) of
        None \<Rightarrow>
          (if flags_follows frame then (Inr None, cache(stream_id frame \<mapsto> frame))
           else (Inr (Some frame), cache))
      | Some accumulated \<Rightarrow>
          (if frame_class frame \<noteq> PAYLOAD \<and> frame_class frame \<noteq> frame_class accumulated
             then (Inl RSocketFrameFragmentDifferentType, cache)
           else
             (let combined = accumulated
                    \<lparr> data := join (data accumulated) (data frame),
                      metadata := join (metadata accumulated) (metadata frame),
                      flags_follows := flags_follows frame \<rparr>
              in if flags_follows frame
                   then (Inr None, cache(stream_id frame \<mapsto> combined))
                 else (Inr (Some combined), cache(stream_id frame := None)))))"

text \<open>
  The second loop of the tests: append the fragments in order; the outcome is the
  result of the last append (\<open>combined_payload\<close>, initially \<open>None\<close>), or the first error.
\<close>

fun append_all ::
  "FrameFragmentCache \<Rightarrow> Frame option \<Rightarrow> Frame list
    \<Rightarrow> (error + Frame option) \<times> FrameFragmentCache" where
  "append_all cache combined [] = (Inr combined, cache)"
| "append_all cache combined (fragment # rest) =
     (case cache_append cache fragment of
        (Inl e, cache') \<Rightarrow> (Inl e, cache')
      | (Inr result, cache') \<Rightarrow> append_all cache' result rest)"

text \<open>The frames of the fragmentation tests.\<close>

definition payload_frame :: "bytes \<Rightarrow> bytes \<Rightarrow> Frame" where
  "payload_frame d m =
     \<lparr> data = Some d, metadata = Some m, frame_class = PAYLOAD, stream_id = 0,
       flags_follows = False, flags_complete = False, flags_next = False,
       initial_request_n = 0 \<rparr>"

definition first_frame :: Frame where
  "first_frame =
     \<lparr> data = Some ''123'', metadata = None, frame_class = REQUEST_RESPONSE, stream_id = 0,
       flags_follows = True, flags_complete = False, flags_next = True,
       initial_request_n = 0 \<rparr>"

definition second_frame :: "FrameType \<Rightarrow> Frame" where
  "second_frame cls =
     \<lparr> data = Some ''123'', metadata = None, frame_class = cls, stream_id = 0,
       flags_follows = False, flags_complete = True, flags_next = False,
       initial_request_n = 0 \<rparr>"

definition continuation_frame :: Frame where
  "continuation_frame =
     \<lparr> data = Some ''456'', metadata = None, frame_class = PAYLOAD, stream_id = 0,
       flags_follows = True, flags_complete = False, flags_next = True,
       initial_request_n = 0 \<rparr>"

section \<open>Route registration\<close>

lemma register_defined:
  "route_map_by_frame_type rt frame_type = Some table \<Longrightarrow>
   register rt frame_type r func =
     Some (fst (decorator_factory table r func),
           set_route_table rt frame_type (snd (decorator_factory table r func)))"
  by (cases frame_type)
     (simp_all add: route_map_by_frame_type_def register_def router_response_def
        router_stream_def router_channel_def router_fire_and_forget_def
        router_metadata_push_def set_route_table_def split_beta)

lemma set_route_table_same:
  "route_map_by_frame_type rt frame_type = Some table \<Longrightarrow>
   set_route_table rt frame_type table = rt"
  by (cases frame_type)
     (auto simp add: route_map_by_frame_type_def set_route_table_def)

lemma route_map_set_route_table:
  "route_map_by_frame_type rt frame_type = Some table \<Longrightarrow>
   route_map_by_frame_type (set_route_table rt frame_type table') frame_type = Some table'"
  by (cases frame_type)
     (simp_all add: route_map_by_frame_type_def set_route_table_def)

lemma register_Some_table:
  "register rt frame_type r func = Some x \<Longrightarrow>
   \<exists>table. route_map_by_frame_type rt frame_type = Some table"
  by (cases frame_type) (simp_all add: route_map_by_frame_type_def register_def)

lemma decorator_factory_empty:
  "safe_len r = 0 \<Longrightarrow>
   decorator_factory container r func = (Inl (RSocketEmptyRoute (name func)), container)"
  by (simp add: decorator_factory_def)

lemma decorator_factory_duplicate:
  "safe_len r \<noteq> 0 \<Longrightarrow> container r \<noteq> None \<Longrightarrow>
   decorator_factory container r func = (Inl (KeyError (RouteKey r)), container)"
  by (simp add: decorator_factory_def)

lemma decorator_factory_fresh:
  "safe_len r \<noteq> 0 \<Longrightarrow> container r = None \<Longrightarrow>
   decorator_factory container r func = (Inr func, container(r \<mapsto> func))"
  by (simp add: decorator_factory_def)

lemma decorator_factory_failure_unchanged:
  "fst (decorator_factory container r func) = Inl e \<Longrightarrow>
   snd (decorator_factory container r func) = container"
  by (simp add: decorator_factory_def split: if_splits)

lemma decorator_factory_success:
  "fst (decorator_factory container r func) = Inr f \<Longrightarrow>
   safe_len r \<noteq> 0 \<and> snd (decorator_factory container r func) = container(r \<mapsto> func)"
  by (simp add: decorator_factory_def split: if_splits)

lemma route_map_router1:
  "route_map_by_frame_type router1 REQUEST_RESPONSE = Some [Some ''path1'' \<mapsto> request_response]"
  by (simp add: route_map_by_frame_type_def router1_def)

lemma route_map_router0:
  "route_map_by_frame_type router0 REQUEST_RESPONSE = Some Map.empty"
  by (simp add: route_map_by_frame_type_def router0_def init_router_def)

lemma set_route_table_router0:
  "set_route_table router0 REQUEST_RESPONSE table = router0\<lparr>response_routes := table\<rparr>"
  by (simp add: set_route_table_def)

text \<open>
  C2.  For each of the five frame types that have a route table: registering with an
  empty or null route raises \<open>RSocketEmptyRoute\<close>; registering under a route that the
  table of that frame type already holds raises \<open>KeyError\<close>; registering a fresh
  non-empty route returns the handler and the table then maps the route to it.
\<close>

theorem registration_rejects_empty_and_duplicate:
  assumes "route_map_by_frame_type rt frame_type = Some table"
  shows "\<exists>res rt'. register rt frame_type r func = Some (res, rt') \<and>
           (safe_len r = 0 \<longrightarrow> res = Inl (RSocketEmptyRoute (name func))) \<and>
           (safe_len r \<noteq> 0 \<and> table r \<noteq> None \<longrightarrow> res = Inl (KeyError (RouteKey r))) \<and>
           (safe_len r \<noteq> 0 \<and> table r = None \<longrightarrow>
              res = Inr func \<and>
              (\<exists>table'. route_map_by_frame_type rt' frame_type = Some table' \<and>
                         table' r = Some func \<and> table' = table(r \<mapsto> func)))"
proof -
  define res where "res = fst (decorator_factory table r func)"
  define rt' where "rt' = set_route_table rt frame_type (snd (decorator_factory table r func))"
  have reg: "register rt frame_type r func = Some (res, rt')"
    using register_defined [OF assms, of r func] by (simp add: res_def rt'_def)
  have tab: "route_map_by_frame_type rt' frame_type
               = Some (snd (decorator_factory table r func))"
    unfolding rt'_def by (rule route_map_set_route_table [OF assms])
  have a: "safe_len r = 0 \<longrightarrow> res = Inl (RSocketEmptyRoute (name func))"
    by (simp add: res_def decorator_factory_empty)
  have b: "safe_len r \<noteq> 0 \<and> table r \<noteq> None \<longrightarrow> res = Inl (KeyError (RouteKey r))"
    by (simp add: res_def decorator_factory_duplicate)
  have c: "safe_len r \<noteq> 0 \<and> table r = None \<longrightarrow>
              res = Inr func \<and>
              (\<exists>table'. route_map_by_frame_type rt' frame_type = Some table' \<and>
                         table' r = Some func \<and> table' = table(r \<mapsto> func))"
    using tab by (simp add: res_def decorator_factory_fresh)
  show ?thesis
    by (rule exI [of _ res], rule exI [of _ rt'], intro conjI) (rule reg, rule a, rule b, rule c)
qed

theorem registration_rejects_empty_and_duplicate_witness:
  "(\<exists>rt'. register router1 REQUEST_RESPONSE (Some ''path1'') request_response2
            = Some (Inl (KeyError (RouteKey (Some ''path1''))), rt')) \<and>
   (\<exists>rt'. register router1 REQUEST_RESPONSE None request_response2
            = Some (Inl (RSocketEmptyRoute ''request_response2''), rt')) \<and>
   (\<exists>rt'. register router1 REQUEST_RESPONSE (Some []) request_response2
            = Some (Inl (RSocketEmptyRoute ''request_response2''), rt')) \<and>
   (\<exists>rt'. register router1 REQUEST_RESPONSE (Some ''path2'') request_response2
            = Some (Inr request_response2, rt') \<and>
          route_map_by_frame_type rt' REQUEST_RESPONSE
            = Some [Some ''path1'' \<mapsto> request_response, Some ''path2'' \<mapsto> request_response2])"
proof -
  let ?table = "[Some ''path1'' \<mapsto> request_response]"
  have n: "name request_response2 = ''request_response2''"
    by (simp add: request_response2_def)
  have d: "safe_len (Some ''path1'') \<noteq> 0 \<and> ?table (Some ''path1'') \<noteq> None"
    and e1: "safe_len None = 0" and e2: "safe_len (Some []) = 0"
    and f: "safe_len (Some ''path2'') \<noteq> 0 \<and> ?table (Some ''path2'') = None"
    by (simp_all add: safe_len_def)
  from registration_rejects_empty_and_duplicate
         [OF route_map_router1, of "Some ''path1''" request_response2] d
  have a: "\<exists>rt'. register router1 REQUEST_RESPONSE (Some ''path1'') request_response2
            = Some (Inl (KeyError (RouteKey (Some ''path1''))), rt')"
    by blast
  from registration_rejects_empty_and_duplicate
         [OF route_map_router1, of None request_response2] e1 n
  have b: "\<exists>rt'. register router1 REQUEST_RESPONSE None request_response2
            = Some (Inl (RSocketEmptyRoute ''request_response2''), rt')"
    by auto
  from registration_rejects_empty_and_duplicate
         [OF route_map_router1, of "Some []" request_response2] e2 n
  have c: "\<exists>rt'. register router1 REQUEST_RESPONSE (Some []) request_response2
            = Some (Inl (RSocketEmptyRoute ''request_response2''), rt')"
    by auto
  from registration_rejects_empty_and_duplicate
         [OF route_map_router1, of "Some ''path2''" request_response2] f
  have g: "\<exists>rt'. register router1 REQUEST_RESPONSE (Some ''path2'') request_response2
            = Some (Inr request_response2, rt') \<and>
          route_map_by_frame_type rt' REQUEST_RESPONSE
            = Some [Some ''path1'' \<mapsto> request_response, Some ''path2'' \<mapsto> request_response2]"
    by auto
  show ?thesis by (intro conjI) (rule a, rule b, rule c, rule g)
qed

text \<open>
  C10.  A registration that raises leaves the router as it was.  In particular, after a
  successful registration a second one under the same route and frame type raises, the
  router is unchanged and the table still maps the route to the first handler; and an
  empty or null route adds no entry.
\<close>

theorem registration_failure_atomic:
  "(register rt frame_type r func = Some (Inl e, rt') \<longrightarrow> rt' = rt) \<and>
   (register rt frame_type r func = Some (Inr func, rt1) \<longrightarrow>
      (\<exists>table1. route_map_by_frame_type rt1 frame_type = Some table1 \<and>
         table1 r = Some func \<and>
         register rt1 frame_type r func2 = Some (Inl (KeyError (RouteKey r)), rt1))) \<and>
   (safe_len r = 0 \<and> route_map_by_frame_type rt frame_type \<noteq> None \<longrightarrow>
      register rt frame_type r func = Some (Inl (RSocketEmptyRoute (name func)), rt))"
proof (intro conjI impI)
  assume a: "register rt frame_type r func = Some (Inl e, rt')"
  then obtain table where t: "route_map_by_frame_type rt frame_type = Some table"
    using register_Some_table by blast
  from register_defined [OF t, of r func] a
  have f: "fst (decorator_factory table r func) = Inl e"
    and r: "rt' = set_route_table rt frame_type (snd (decorator_factory table r func))"
    by simp_all
  show "rt' = rt"
    unfolding r decorator_factory_failure_unchanged [OF f]
    by (rule set_route_table_same [OF t])
next
  assume a: "register rt frame_type r func = Some (Inr func, rt1)"
  then obtain table where t: "route_map_by_frame_type rt frame_type = Some table"
    using register_Some_table by blast
  from register_defined [OF t, of r func] a
  have f: "fst (decorator_factory table r func) = Inr func"
    and r: "rt1 = set_route_table rt frame_type (snd (decorator_factory table r func))"
    by simp_all
  from decorator_factory_success [OF f]
  have ok: "safe_len r \<noteq> 0" and s: "snd (decorator_factory table r func) = table(r \<mapsto> func)"
    by simp_all
  have t1: "route_map_by_frame_type rt1 frame_type = Some (table(r \<mapsto> func))"
    unfolding r s by (rule route_map_set_route_table [OF t])
  have d: "decorator_factory (table(r \<mapsto> func)) r func2
             = (Inl (KeyError (RouteKey r)), table(r \<mapsto> func))"
    using ok by (simp add: decorator_factory_duplicate)
  have "register rt1 frame_type r func2 = Some (Inl (KeyError (RouteKey r)), rt1)"
    using register_defined [OF t1, of r func2] set_route_table_same [OF t1]
    by (simp add: d)
  then show "\<exists>table1. route_map_by_frame_type rt1 frame_type = Some table1 \<and>
         table1 r = Some func \<and>
         register rt1 frame_type r func2 = Some (Inl (KeyError (RouteKey r)), rt1)"
    using t1 by simp
next
  assume a: "safe_len r = 0 \<and> route_map_by_frame_type rt frame_type \<noteq> None"
  then obtain table where t: "route_map_by_frame_type rt frame_type = Some table" by blast
  have d: "decorator_factory table r func = (Inl (RSocketEmptyRoute (name func)), table)"
    using a by (simp add: decorator_factory_empty)
  show "register rt frame_type r func = Some (Inl (RSocketEmptyRoute (name func)), rt)"
    using register_defined [OF t, of r func] set_route_table_same [OF t]
    by (simp add: d)
qed

theorem registration_failure_atomic_witness:
  "register router0 REQUEST_RESPONSE (Some ''path1'') request_response
     = Some (Inr request_response, router1) \<and>
   register router1 REQUEST_RESPONSE (Some ''path1'') request_response2
     = Some (Inl (KeyError (RouteKey (Some ''path1''))), router1) \<and>
   response_routes router1 (Some ''path1'') = Some request_response \<and>
   register router1 REQUEST_RESPONSE None request_response2
     = Some (Inl (RSocketEmptyRoute ''request_response2''), router1) \<and>
   register router1 REQUEST_RESPONSE (Some []) request_response2
     = Some (Inl (RSocketEmptyRoute ''request_response2''), router1)"
proof -
  have r0: "register router0 REQUEST_RESPONSE (Some ''path1'') request_response
              = Some (Inr request_response, router1)"
    using register_defined [OF route_map_router0, of "Some ''path1''" request_response]
    by (simp add: decorator_factory_fresh safe_len_def set_route_table_router0 router1_def)
  have t: "route_map_by_frame_type router1 REQUEST_RESPONSE \<noteq> None"
    by (simp add: route_map_router1)
  have n: "name request_response2 = ''request_response2''"
    by (simp add: request_response2_def)
  from registration_failure_atomic
         [of router0 REQUEST_RESPONSE "Some ''path1''" request_response _ _ router1
             request_response2] r0
  have dup: "register router1 REQUEST_RESPONSE (Some ''path1'') request_response2
               = Some (Inl (KeyError (RouteKey (Some ''path1''))), router1)"
    by blast
  from registration_failure_atomic
         [of router1 REQUEST_RESPONSE None request_response2] t n
  have e1: "register router1 REQUEST_RESPONSE None request_response2
              = Some (Inl (RSocketEmptyRoute ''request_response2''), router1)"
    by (simp add: safe_len_def)
  from registration_failure_atomic
         [of router1 REQUEST_RESPONSE "Some []" request_response2] t n
  have e2: "register router1 REQUEST_RESPONSE (Some []) request_response2
              = Some (Inl (RSocketEmptyRoute ''request_response2''), router1)"
    by (simp add: safe_len_def)
  have l: "response_routes router1 (Some ''path1'') = Some request_response"
    by (simp add: router1_def)
  show ?thesis by (intro conjI) (rule r0, rule dup, rule l, rule e1, rule e2)
qed

section \<open>Dispatch by the router\<close>

lemma route_registered:
  assumes "route_map_by_frame_type rt frame_type = Some table"
    and "table (Some r) = Some processor"
  shows "route rt frame_type r payload cm =
           (case collect_route_arguments rt processor payload cm of
              Inl e \<Rightarrow> (Inl e, [])
            | Inr route_kwargs \<Rightarrow> (body processor route_kwargs, [Invoked (name processor)]))"
  using assms by (simp add: route_def)

lemma route_fallback:
  assumes "route_map_by_frame_type rt frame_type = Some table"
    and "table (Some r) = None"
    and "get_unknown_route rt frame_type = Some processor"
  shows "route rt frame_type r payload cm =
           (case collect_route_arguments rt processor payload cm of
              Inl e \<Rightarrow> (Inl e, [])
            | Inr route_kwargs \<Rightarrow> (body processor route_kwargs, [Invoked (name processor)]))"
  using assms by (simp add: route_def)

lemma route_unknown:
  assumes "route_map_by_frame_type rt frame_type = Some table"
    and "table (Some r) = None"
    and "get_unknown_route rt frame_type = None"
  shows "route rt frame_type r payload cm = (Inl (RSocketUnknownRoute r), [])"
  using assms by (simp add: route_def)

lemma route_call_three_arguments:
  "route_call rt [a, b, c] = (Inl (TypeError ''missing required positional argument''), [])"
  by (simp add: route_call_def bind_positional_def route_parameters_def)

section \<open>The routing request handler: dispatch, authentication, errors\<close>

lemma verify_items_absent:
  "\<forall>a. AuthenticationContent a \<notin> set cm \<Longrightarrow>
   verify_items v r cm = (Inl (Exception ''Authentication required but not provided''), [])"
  by (induction v r cm rule: verify_items.induct) auto

lemma verify_items_first:
  "\<forall>b. AuthenticationContent b \<notin> set pre \<Longrightarrow>
   verify_items v r (pre @ AuthenticationContent a # post) = (v r a, [Verified r a])"
proof (induction pre)
  case Nil
  show ?case by simp
next
  case (Cons x pre)
  then show ?case by (cases x) auto
qed

lemma parse_and_route_no_result:
  "fst (parse_and_route c h payload) \<noteq> Inr x"
  by (simp add: parse_and_route_def route_call_three_arguments
        split: sum.splits prod.splits)

lemma verify_items_no_invocation:
  "verify_items v r cm = (res, evs) \<Longrightarrow> Invoked n \<notin> set evs"
  by (induction v r cm rule: verify_items.induct) auto

lemma verify_authentication_no_invocation:
  "verify_authentication h r cm = (res, evs) \<Longrightarrow> Invoked n \<notin> set evs"
  by (auto simp: verify_authentication_def split: option.splits
        dest: verify_items_no_invocation)

lemma parse_and_route_no_invocation:
  "Invoked n \<notin> set (snd (parse_and_route c h payload))"
  by (auto simp: parse_and_route_def route_call_three_arguments
        split: sum.splits prod.splits dest: verify_authentication_no_invocation)

text \<open>
  C1.  The router dispatches as the claim says (\<open>route_registered\<close>, \<open>route_fallback\<close>,
  \<open>route_unknown\<close>), but the routing handler never gets there.  With authentication
  switched off and \<open>path1\<close> registered for REQUEST_RESPONSE, a request that carries the
  route \<open>path1\<close> ends in the \<open>TypeError\<close> of the call of \<open>route\<close>, which passes three
  arguments for four parameters, and the registered handler is not invoked; the router,
  asked with the frame type, invokes it.
\<close>

theorem routed_request_misses_registered_handler:
  "parse_and_route codec0 (init_handler router1 None)
       \<lparr> data = Some [], metadata = Some ''route'' \<rparr>
     = (Inl (TypeError ''missing required positional argument''), []) \<and>
   route router1 REQUEST_RESPONSE ''path1'' \<lparr> data = Some [], metadata = Some ''route'' \<rparr>
       [RoutingMetadata [''path1'']]
     = (Inr \<lparr> data = Some ''result'', metadata = None \<rparr>, [Invoked ''request_response''])"
proof -
  have t: "response_routes router1 (Some ''path1'') = Some request_response"
    by (simp add: router1_def)
  have a: "route router1 REQUEST_RESPONSE ''path1'' \<lparr> data = Some [], metadata = Some ''route'' \<rparr>
       [RoutingMetadata [''path1'']]
     = (Inr \<lparr> data = Some ''result'', metadata = None \<rparr>, [Invoked ''request_response''])"
    by (simp add: route_def route_map_by_frame_type_def t collect_route_arguments_def
          request_response_def router1_def router0_def init_router_def
          default_payload_mapper_def)
  have b: "parse_and_route codec0 (init_handler router1 None)
       \<lparr> data = Some [], metadata = Some ''route'' \<rparr>
     = (Inl (TypeError ''missing required positional argument''), [])"
    by (simp add: parse_and_route_def codec0_def init_handler_def
          verify_authentication_def route_call_three_arguments)
  show ?thesis by (rule conjI) (rule b, rule a)
qed

text \<open>
  C6.  \<open>on_setup\<close> raises for every metadata encoding other than
  \<open>message/x.rsocket.composite-metadata.v0\<close> and leaves the handler as it was; for that
  encoding it stores both encodings and hands over to the \<open>on_setup\<close> of the base
  class, whose outcome is its own.  So a setup that is accepted had that encoding.
\<close>

theorem on_setup_requires_composite_metadata:
  "(metadata_enc \<noteq> ''message/x.rsocket.composite-metadata.v0'' \<longrightarrow>
      on_setup super_on_setup h data_enc metadata_enc =
        (Inl (Exception
           ''Setup frame did not specify composite metadata. required for routing handler''), h)) \<and>
   (metadata_enc = ''message/x.rsocket.composite-metadata.v0'' \<longrightarrow>
      on_setup super_on_setup h data_enc metadata_enc =
        super_on_setup data_enc metadata_enc
          (h\<lparr>data_encoding := Some data_enc, metadata_encoding := Some metadata_enc\<rparr>)) \<and>
   (fst (on_setup super_on_setup h data_enc metadata_enc) = Inr () \<longrightarrow>
      metadata_enc = ''message/x.rsocket.composite-metadata.v0'')"
  by (simp add: on_setup_def MESSAGE_RSOCKET_COMPOSITE_METADATA_name_def)

theorem on_setup_requires_composite_metadata_witness:
  "on_setup (\<lambda>d m h. (Inr (), h)) (init_handler router1 None)
      ''application/json'' ''application/json''
     = (Inl (Exception
          ''Setup frame did not specify composite metadata. required for routing handler''),
        init_handler router1 None) \<and>
   on_setup (\<lambda>d m h. (Inr (), h)) (init_handler router1 None)
      ''application/json'' ''message/x.rsocket.composite-metadata.v0''
     = (Inr (), (init_handler router1 None)
          \<lparr>data_encoding := Some ''application/json'',
           metadata_encoding := Some ''message/x.rsocket.composite-metadata.v0''\<rparr>)"
proof -
  have n: "''application/json'' \<noteq> ''message/x.rsocket.composite-metadata.v0''" by simp
  from on_setup_requires_composite_metadata
         [of "''application/json''" "\<lambda>d m h. (Inr (), h)" "init_handler router1 None"
             "''application/json''"] n
  have a: "on_setup (\<lambda>d m h. (Inr (), h)) (init_handler router1 None)
      ''application/json'' ''application/json''
     = (Inl (Exception
          ''Setup frame did not specify composite metadata. required for routing handler''),
        init_handler router1 None)" by blast
  from on_setup_requires_composite_metadata
         [of "''message/x.rsocket.composite-metadata.v0''" "\<lambda>d m h. (Inr (), h)"
             "init_handler router1 None" "''application/json''"]
  have b: "on_setup (\<lambda>d m h. (Inr (), h)) (init_handler router1 None)
      ''application/json'' ''message/x.rsocket.composite-metadata.v0''
     = (Inr (), (init_handler router1 None)
          \<lparr>data_encoding := Some ''application/json'',
           metadata_encoding := Some ''message/x.rsocket.composite-metadata.v0''\<rparr>)"
    by simp
  show ?thesis by (rule conjI) (rule a, rule b)
qed

lemma request_methods_on_Exception:
  assumes "parse_and_route c h payload = (Inl e, evs)" and "is_Exception e"
  shows "request_response_method c h payload = (Inr (ErrorFuture e), evs)"
    and "request_stream c h payload = (Inr (ErrorStream e), evs)"
    and "request_channel c h payload = (Inr (ErrorStreamNullSubscriber e), evs)"
    and "request_fire_and_forget c h payload = (Inr PyNone, evs @ [Logged e])"
  using assms
  by (simp_all add: request_response_method_def request_stream_def request_channel_def
        request_fire_and_forget_def)

lemma request_methods_on_other_raise:
  assumes "parse_and_route c h payload = (Inl e, evs)" and "\<not> is_Exception e"
  shows "request_response_method c h payload = (Inl e, evs)"
    and "request_stream c h payload = (Inl e, evs)"
    and "request_channel c h payload = (Inl e, evs)"
    and "request_fire_and_forget c h payload = (Inl e, evs)"
  using assms
  by (simp_all add: request_response_method_def request_stream_def request_channel_def
        request_fire_and_forget_def)

lemma parse_and_route_verifier_raises:
  assumes "authentication_verifier h = Some v"
    and "parse c (metadata payload) = Inr cm"
    and "require_route (decode c) cm = Inr r"
    and "cm = pre @ AuthenticationContent a # post"
    and "\<forall>b. AuthenticationContent b \<notin> set pre"
    and "v r a = Inl e"
  shows "parse_and_route c h payload = (Inl e, [Verified r a])"
proof -
  have "verify_authentication h r cm = (Inl e, [Verified r a])"
    using assms(1,4,5,6) by (simp add: verify_authentication_def verify_items_first)
  then show ?thesis
    using assms(2,3) by (simp add: parse_and_route_def)
qed

lemma parse_and_route_verifier_returns:
  assumes "authentication_verifier h = Some v"
    and "parse c (metadata payload) = Inr cm"
    and "require_route (decode c) cm = Inr r"
    and "cm = pre @ AuthenticationContent a # post"
    and "\<forall>b. AuthenticationContent b \<notin> set pre"
    and "v r a = Inr ()"
  shows "parse_and_route c h payload =
           (fst (route_call (router h) [VStr r, VPayload payload, VCompositeMetadata cm]),
            Verified r a #
            snd (route_call (router h) [VStr r, VPayload payload, VCompositeMetadata cm]))"
proof -
  have "verify_authentication h r cm = (Inr (), [Verified r a])"
    using assms(1,4,5,6) by (simp add: verify_authentication_def verify_items_first)
  then show ?thesis
    using assms(2,3) by (simp add: parse_and_route_def split_beta)
qed

lemma parse_and_route_no_authentication:
  assumes "authentication_verifier h = Some v"
    and "parse c (metadata payload) = Inr cm"
    and "require_route (decode c) cm = Inr r"
    and "\<forall>b. AuthenticationContent b \<notin> set cm"
  shows "parse_and_route c h payload =
           (Inl (Exception ''Authentication required but not provided''), [])"
proof -
  have "verify_authentication h r cm =
          (Inl (Exception ''Authentication required but not provided''), [])"
    using assms(1,4) by (simp add: verify_authentication_def verify_items_absent)
  then show ?thesis
    using assms(2,3) by (simp add: parse_and_route_def)
qed

text \<open>
  C7, as amended.  With a verifier configured, for a request whose metadata parses and
  carries a route:

  \<^item> when the metadata has an AUTHENTICATION entry, the verifier is invoked with the route
    and the authentication of the first such entry, before the router is called;
  \<^item> when the verifier raises, \<open>_parse_and_route\<close> raises that error and the router is
    not called; if the error is an \<open>Exception\<close>, \<open>request_response\<close> returns it as a
    failed future, \<open>request_stream\<close> as an error stream, \<open>request_channel\<close> as an error
    stream with a null subscriber, and \<open>request_fire_and_forget\<close> logs it and returns
    \<open>None\<close>; a raise that is not an \<open>Exception\<close> leaves all four methods;
  \<^item> when the verifier returns, the call of the router follows the verification;
  \<^item> when the metadata has no AUTHENTICATION entry, \<open>_parse_and_route\<close> raises
    ``Authentication required but not provided'', whatever the verifier, neither the
    verifier nor the router is called, and the four methods treat this error, an
    \<open>Exception\<close>, as above.
\<close>

theorem authentication_before_dispatch:
  assumes "authentication_verifier h = Some v"
    and "parse c (metadata payload) = Inr cm"
    and "require_route (decode c) cm = Inr r"
  shows "(cm = pre @ AuthenticationContent a # post \<and>
            (\<forall>b. AuthenticationContent b \<notin> set pre) \<and> v r a = Inl e \<longrightarrow>
            parse_and_route c h payload = (Inl e, [Verified r a]) \<and>
            (is_Exception e \<longrightarrow>
               request_response_method c h payload = (Inr (ErrorFuture e), [Verified r a]) \<and>
               request_stream c h payload = (Inr (ErrorStream e), [Verified r a]) \<and>
               request_channel c h payload
                 = (Inr (ErrorStreamNullSubscriber e), [Verified r a]) \<and>
               request_fire_and_forget c h payload
                 = (Inr PyNone, [Verified r a, Logged e])) \<and>
            (\<not> is_Exception e \<longrightarrow>
               request_response_method c h payload = (Inl e, [Verified r a]) \<and>
               request_stream c h payload = (Inl e, [Verified r a]) \<and>
               request_channel c h payload = (Inl e, [Verified r a]) \<and>
               request_fire_and_forget c h payload = (Inl e, [Verified r a]))) \<and>
         (cm = pre @ AuthenticationContent a # post \<and>
            (\<forall>b. AuthenticationContent b \<notin> set pre) \<and> v r a = Inr () \<longrightarrow>
            parse_and_route c h payload =
              (fst (route_call (router h) [VStr r, VPayload payload, VCompositeMetadata cm]),
               Verified r a #
               snd (route_call (router h) [VStr r, VPayload payload, VCompositeMetadata cm]))) \<and>
         ((\<forall>b. AuthenticationContent b \<notin> set cm) \<longrightarrow>
            parse_and_route c h payload =
              (Inl (Exception ''Authentication required but not provided''), []) \<and>
            request_response_method c h payload =
              (Inr (ErrorFuture (Exception ''Authentication required but not provided'')), []) \<and>
            request_stream c h payload =
              (Inr (ErrorStream (Exception ''Authentication required but not provided'')), []) \<and>
            request_channel c h payload =
              (Inr (ErrorStreamNullSubscriber
                      (Exception ''Authentication required but not provided'')), []) \<and>
            request_fire_and_forget c h payload =
              (Inr PyNone, [Logged (Exception ''Authentication required but not provided'')]))"
proof (intro conjI impI)
  assume x: "cm = pre @ AuthenticationContent a # post \<and>
            (\<forall>b. AuthenticationContent b \<notin> set pre) \<and> v r a = Inl e"
  then show p: "parse_and_route c h payload = (Inl e, [Verified r a])"
    using parse_and_route_verifier_raises [OF assms, of pre a post e] by blast
  {
    assume i: "is_Exception e"
    from request_methods_on_Exception [OF p i]
    show "request_response_method c h payload = (Inr (ErrorFuture e), [Verified r a])"
      and "request_stream c h payload = (Inr (ErrorStream e), [Verified r a])"
      and "request_channel c h payload = (Inr (ErrorStreamNullSubscriber e), [Verified r a])"
      and "request_fire_and_forget c h payload = (Inr PyNone, [Verified r a, Logged e])"
      by simp_all
  }
  {
    assume i: "\<not> is_Exception e"
    from request_methods_on_other_raise [OF p i]
    show "request_response_method c h payload = (Inl e, [Verified r a])"
      and "request_stream c h payload = (Inl e, [Verified r a])"
      and "request_channel c h payload = (Inl e, [Verified r a])"
      and "request_fire_and_forget c h payload = (Inl e, [Verified r a])"
      by simp_all
  }
next
  assume "cm = pre @ AuthenticationContent a # post \<and>
            (\<forall>b. AuthenticationContent b \<notin> set pre) \<and> v r a = Inr ()"
  then show "parse_and_route c h payload =
              (fst (route_call (router h) [VStr r, VPayload payload, VCompositeMetadata cm]),
               Verified r a #
               snd (route_call (router h) [VStr r, VPayload payload, VCompositeMetadata cm]))"
    using parse_and_route_verifier_returns [OF assms, of pre a post] by blast
next
  assume n: "\<forall>b. AuthenticationContent b \<notin> set cm"
  have i: "is_Exception (Exception ''Authentication required but not provided'')"
    by (simp add: is_Exception_def)
  show p: "parse_and_route c h payload =
              (Inl (Exception ''Authentication required but not provided''), [])"
    using parse_and_route_no_authentication [OF assms n] .
  from request_methods_on_Exception [OF p i]
  show "request_response_method c h payload =
              (Inr (ErrorFuture (Exception ''Authentication required but not provided'')), [])"
    and "request_stream c h payload =
              (Inr (ErrorStream (Exception ''Authentication required but not provided'')), [])"
    and "request_channel c h payload =
              (Inr (ErrorStreamNullSubscriber
                      (Exception ''Authentication required but not provided'')), [])"
    and "request_fire_and_forget c h payload =
              (Inr PyNone, [Logged (Exception ''Authentication required but not provided'')])"
    by simp_all
qed

theorem authentication_before_dispatch_witness:
  "parse_and_route codec0 (init_handler router1 (Some deny_all))
       \<lparr> data = Some [], metadata = Some ''route+auth'' \<rparr>
     = (Inl (Raised ''denied''),
        [Verified ''path1'' (AuthenticationSimple ''user'' ''12345'')]) \<and>
   request_response_method codec0 (init_handler router1 (Some deny_all))
       \<lparr> data = Some [], metadata = Some ''route+auth'' \<rparr>
     = (Inr (ErrorFuture (Raised ''denied'')),
        [Verified ''path1'' (AuthenticationSimple ''user'' ''12345'')]) \<and>
   request_response_method codec0 (init_handler router1 (Some cancelled))
       \<lparr> data = Some [], metadata = Some ''route+auth'' \<rparr>
     = (Inl (RaisedBase ''CancelledError''),
        [Verified ''path1'' (AuthenticationSimple ''user'' ''12345'')]) \<and>
   parse_and_route codec0 (init_handler router1 (Some always_allow_authenticator))
       \<lparr> data = Some [], metadata = Some ''route+auth'' \<rparr>
     = (Inl (TypeError ''missing required positional argument''),
        [Verified ''path1'' (AuthenticationSimple ''user'' ''12345'')]) \<and>
   request_stream codec0 (init_handler router1 (Some always_allow_authenticator))
       \<lparr> data = Some [], metadata = Some ''route'' \<rparr>
     = (Inr (ErrorStream (Exception ''Authentication required but not provided'')), [])"
proof -
  let ?a = "AuthenticationSimple ''user'' ''12345''"
  let ?cm = "[RoutingMetadata [''path1''], AuthenticationContent ?a]"
  let ?p = "\<lparr> data = Some [], metadata = Some ''route+auth'' \<rparr>"
  let ?q = "\<lparr> data = Some [], metadata = Some ''route'' \<rparr>"
  have v1: "authentication_verifier (init_handler router1 (Some deny_all)) = Some deny_all"
    and v2: "authentication_verifier (init_handler router1 (Some always_allow_authenticator))
               = Some always_allow_authenticator"
    and v3: "authentication_verifier (init_handler router1 (Some cancelled)) = Some cancelled"
    by (simp_all add: init_handler_def)
  have p1: "parse codec0 (metadata ?p) = Inr ?cm"
    and p2: "parse codec0 (metadata ?q) = Inr [RoutingMetadata [''path1'']]"
    by (simp_all add: codec0_def)
  have r1: "require_route (decode codec0) ?cm = Inr ''path1''"
    and r2: "require_route (decode codec0) [RoutingMetadata [''path1'']] = Inr ''path1''"
    by (simp_all add: codec0_def)
  have s: "?cm = [RoutingMetadata [''path1'']] @ AuthenticationContent ?a # [] \<and>
           (\<forall>b. AuthenticationContent b \<notin> set [RoutingMetadata [''path1'']])"
    by simp
  have d: "deny_all ''path1'' ?a = Inl (Raised ''denied'')"
    and di: "is_Exception (Raised ''denied'')"
    by (simp_all add: deny_all_def is_Exception_def)
  have k: "cancelled ''path1'' ?a = Inl (RaisedBase ''CancelledError'')"
    and ki: "\<not> is_Exception (RaisedBase ''CancelledError'')"
    by (simp_all add: cancelled_def is_Exception_def)
  have o: "always_allow_authenticator ''path1'' ?a = Inr ()"
    by (simp add: always_allow_authenticator_def)
  have n: "\<forall>b. AuthenticationContent b \<notin> set [RoutingMetadata [''path1'']]"
    by simp
  from authentication_before_dispatch
         [OF v1 p1 r1, of "[RoutingMetadata [''path1'']]" ?a "[]" "Raised ''denied''"] s d di
  have a: "parse_and_route codec0 (init_handler router1 (Some deny_all)) ?p
             = (Inl (Raised ''denied''), [Verified ''path1'' ?a])"
    and a': "request_response_method codec0 (init_handler router1 (Some deny_all)) ?p
             = (Inr (ErrorFuture (Raised ''denied'')), [Verified ''path1'' ?a])"
    by blast+
  from authentication_before_dispatch
         [OF v3 p1 r1, of "[RoutingMetadata [''path1'']]" ?a "[]"
            "RaisedBase ''CancelledError''"] s k ki
  have a'': "request_response_method codec0 (init_handler router1 (Some cancelled)) ?p
             = (Inl (RaisedBase ''CancelledError''), [Verified ''path1'' ?a])"
    by blast
  from authentication_before_dispatch
         [OF v2 p1 r1, of "[RoutingMetadata [''path1'']]" ?a "[]"] s o
  have "parse_and_route codec0 (init_handler router1 (Some always_allow_authenticator)) ?p
          = (fst (route_call (router (init_handler router1 (Some always_allow_authenticator)))
                    [VStr ''path1'', VPayload ?p, VCompositeMetadata ?cm]),
             Verified ''path1'' ?a #
             snd (route_call (router (init_handler router1 (Some always_allow_authenticator)))
                    [VStr ''path1'', VPayload ?p, VCompositeMetadata ?cm]))"
    by blast
  then have b: "parse_and_route codec0 (init_handler router1 (Some always_allow_authenticator)) ?p
             = (Inl (TypeError ''missing required positional argument''),
                [Verified ''path1'' ?a])"
    by (simp add: route_call_three_arguments)
  from authentication_before_dispatch [OF v2 p2 r2] n
  have c: "request_stream codec0 (init_handler router1 (Some always_allow_authenticator)) ?q
     = (Inr (ErrorStream (Exception ''Authentication required but not provided'')), [])"
    by blast
  show ?thesis by (intro conjI) (rule a, rule a', rule a'', rule b, rule c)
qed

text \<open>
  C7, as stated, fails for a routed fire-and-forget request: the verifier raises, and
  the request is answered with \<open>None\<close> and a line in the log; no error is handed on that
  could become an ERROR frame.
\<close>

theorem authentication_before_dispatch_counterexample:
  "authentication_verifier (init_handler router1 (Some deny_all)) = Some deny_all \<and>
   deny_all ''path1'' (AuthenticationSimple ''user'' ''12345'') = Inl (Raised ''denied'') \<and>
   request_fire_and_forget codec0 (init_handler router1 (Some deny_all))
       \<lparr> data = Some ''request data'', metadata = Some ''route+auth'' \<rparr>
     = (Inr PyNone,
        [Verified ''path1'' (AuthenticationSimple ''user'' ''12345''),
         Logged (Raised ''denied'')])"
  by (simp add: request_fire_and_forget_def parse_and_route_def codec0_def init_handler_def
        verify_authentication_def deny_all_def is_Exception_def)

text \<open>
  C9, as amended.  Whatever \<open>_parse_and_route\<close> raises that is an instance of
  \<open>Exception\<close>, from parsing, route extraction, authentication or the call of the router,
  is logged and \<open>request_fire_and_forget\<close> returns \<open>None\<close>; a raise that is not an
  instance of \<open>Exception\<close> is not caught and leaves the method.  So the method never
  returns anything but \<open>None\<close>, and what it raises is never an \<open>Exception\<close>.
\<close>

theorem fire_and_forget_errors_logged_only:
  "(\<forall>e evs. parse_and_route c h payload = (Inl e, evs) \<and> is_Exception e \<longrightarrow>
      request_fire_and_forget c h payload = (Inr PyNone, evs @ [Logged e])) \<and>
   (\<forall>e evs. parse_and_route c h payload = (Inl e, evs) \<and> \<not> is_Exception e \<longrightarrow>
      request_fire_and_forget c h payload = (Inl e, evs)) \<and>
   (\<forall>y. fst (request_fire_and_forget c h payload) = Inr y \<longrightarrow> y = PyNone) \<and>
   (\<forall>e. fst (request_fire_and_forget c h payload) = Inl e \<longrightarrow> \<not> is_Exception e)"
  by (auto simp: request_fire_and_forget_def split: prod.splits sum.splits if_splits)

theorem fire_and_forget_errors_logged_only_witness:
  "request_fire_and_forget codec0 (init_handler router1 (Some always_allow_authenticator))
       \<lparr> data = Some ''request data'', metadata = Some ''route'' \<rparr>
     = (Inr PyNone, [Logged (Exception ''Authentication required but not provided'')]) \<and>
   request_fire_and_forget codec0 (init_handler router1 (Some cancelled))
       \<lparr> data = Some ''request data'', metadata = Some ''route+auth'' \<rparr>
     = (Inl (RaisedBase ''CancelledError''),
        [Verified ''path1'' (AuthenticationSimple ''user'' ''12345'')])"
proof -
  let ?h = "init_handler router1 (Some always_allow_authenticator)"
  let ?k = "init_handler router1 (Some cancelled)"
  let ?q = "\<lparr> data = Some ''request data'', metadata = Some ''route'' \<rparr>"
  let ?p = "\<lparr> data = Some ''request data'', metadata = Some ''route+auth'' \<rparr>"
  have p1: "parse_and_route codec0 ?h ?q
          = (Inl (Exception ''Authentication required but not provided''), [])"
    by (simp add: parse_and_route_def codec0_def init_handler_def verify_authentication_def)
  have i1: "is_Exception (Exception ''Authentication required but not provided'')"
    by (simp add: is_Exception_def)
  have p2: "parse_and_route codec0 ?k ?p
          = (Inl (RaisedBase ''CancelledError''),
             [Verified ''path1'' (AuthenticationSimple ''user'' ''12345'')])"
    by (simp add: parse_and_route_def codec0_def init_handler_def verify_authentication_def
          cancelled_def)
  have i2: "\<not> is_Exception (RaisedBase ''CancelledError'')"
    by (simp add: is_Exception_def)
  from fire_and_forget_errors_logged_only [of codec0 ?h ?q] p1 i1
  have a: "request_fire_and_forget codec0 ?h ?q
     = (Inr PyNone, [Logged (Exception ''Authentication required but not provided'')])"
    by simp
  from fire_and_forget_errors_logged_only [of codec0 ?k ?p] p2 i2
  have b: "request_fire_and_forget codec0 ?k ?p
     = (Inl (RaisedBase ''CancelledError''),
        [Verified ''path1'' (AuthenticationSimple ''user'' ''12345'')])"
    by simp
  show ?thesis by (rule conjI) (rule a, rule b)
qed

text \<open>
  C9, as stated, fails when the awaited verifier is cancelled: the
  \<open>CancelledError\<close> is no \<open>Exception\<close>, the \<open>except\<close> clause lets it pass, and
  \<open>request_fire_and_forget\<close> raises it without logging.
\<close>

theorem fire_and_forget_errors_logged_only_counterexample:
  "request_fire_and_forget codec0 (init_handler router1 (Some cancelled))
       \<lparr> data = Some ''request data'', metadata = Some ''route+auth'' \<rparr>
     = (Inl (RaisedBase ''CancelledError''),
        [Verified ''path1'' (AuthenticationSimple ''user'' ''12345'')])"
  by (simp add: request_fire_and_forget_def parse_and_route_def codec0_def init_handler_def
        verify_authentication_def cancelled_def is_Exception_def)

section \<open>The channel responder on the initial frame\<close>

text \<open>
  C8.  On a REQUEST_CHANNEL frame the responder, when its subscriber has no
  subscription, sends COMPLETE on its stream and then marks itself completed and
  finished (with \<open>sent = True\<close>); otherwise it requests the frame's \<open>initial_request_n\<close>
  from the subscription.  In both cases it then completes the remote subscriber exactly
  when the frame has \<open>flags_complete\<close>, and it does nothing else.
\<close>

theorem channel_responder_initial_frame:
  assumes "frame_class frame = REQUEST_CHANNEL"
  shows "(subscription self = None \<and> flags_complete frame \<longrightarrow>
            frame_received self frame =
              [Send_complete (responder_stream self), Mark_completed_and_finish True,
               Complete_remote_subscriber]) \<and>
         (subscription self = None \<and> \<not> flags_complete frame \<longrightarrow>
            frame_received self frame =
              [Send_complete (responder_stream self), Mark_completed_and_finish True]) \<and>
         (subscription self = Some s \<and> flags_complete frame \<longrightarrow>
            frame_received self frame =
              [Subscription_request s (initial_request_n frame), Complete_remote_subscriber]) \<and>
         (subscription self = Some s \<and> \<not> flags_complete frame \<longrightarrow>
            frame_received self frame = [Subscription_request s (initial_request_n frame)])"
  using assms by (simp add: frame_received_def)

theorem channel_responder_initial_frame_witness:
  "frame_received \<lparr> responder_stream = 1, subscription = (None :: unit option) \<rparr>
       (channel_frame True)
     = [Send_complete 1, Mark_completed_and_finish True, Complete_remote_subscriber] \<and>
   frame_received \<lparr> responder_stream = 1, subscription = (None :: unit option) \<rparr>
       (channel_frame False)
     = [Send_complete 1, Mark_completed_and_finish True] \<and>
   frame_received \<lparr> responder_stream = 1, subscription = Some () \<rparr> (channel_frame True)
     = [Subscription_request () 5, Complete_remote_subscriber] \<and>
   frame_received \<lparr> responder_stream = 1, subscription = Some () \<rparr> (channel_frame False)
     = [Subscription_request () 5]"
proof -
  have c: "frame_class (channel_frame b) = REQUEST_CHANNEL" for b
    by (simp add: channel_frame_def)
  have f: "flags_complete (channel_frame True)" "\<not> flags_complete (channel_frame False)"
    and n: "initial_request_n (channel_frame b) = 5" for b
    by (simp_all add: channel_frame_def)
  let ?r0 = "\<lparr> responder_stream = 1, subscription = (None :: unit option) \<rparr>"
  let ?r1 = "\<lparr> responder_stream = 1, subscription = Some () \<rparr>"
  from channel_responder_initial_frame [where frame = "channel_frame True" and self = ?r0] c f
  have a: "frame_received ?r0 (channel_frame True)
     = [Send_complete 1, Mark_completed_and_finish True, Complete_remote_subscriber]"
    by simp
  from channel_responder_initial_frame [where frame = "channel_frame False" and self = ?r0] c f
  have b: "frame_received ?r0 (channel_frame False)
     = [Send_complete 1, Mark_completed_and_finish True]"
    by simp
  from channel_responder_initial_frame
         [where frame = "channel_frame True" and self = ?r1 and s = "()"] c f n
  have c': "frame_received ?r1 (channel_frame True)
     = [Subscription_request () 5, Complete_remote_subscriber]"
    by simp
  from channel_responder_initial_frame
         [where frame = "channel_frame False" and self = ?r1 and s = "()"] c f n
  have d: "frame_received ?r1 (channel_frame False) = [Subscription_request () 5]"
    by simp
  show ?thesis by (intro conjI) (rule a, rule b, rule c', rule d)
qed

section \<open>Fragmentation round trip\<close>

lemma all_fragments_None:
  "fst (get_next_fragment f) = None \<Longrightarrow> all_fragments f = Some []"
  by (subst all_fragments.simps) simp

lemma all_fragments_Some:
  "get_next_fragment f = (Some fragment, f') \<Longrightarrow>
   all_fragments f = Option.bind (all_fragments f') (\<lambda>rest. Some (fragment # rest))"
  by (subst all_fragments.simps) simp

lemma all_fragments_Exhausted:
  "generator f = Exhausted \<Longrightarrow> all_fragments f = Some []"
  by (rule all_fragments_None) (simp add: get_next_fragment_def)

lemma bytes_of_join: "bytes_of (join a b) = bytes_of a @ bytes_of b"
  by (auto simp: join_def bytes_of_def split: option.splits)

lemma next_fragment_props:
  assumes "next_fragment f cls m d = (r, f')" and "n = fragment_size_bytes f"
  shows "\<exists>fr. r = Some fr \<and> frame_class fr = cls \<and>
           stream_id fr = stream_id (logical_frame f) \<and>
           bytes_of (metadata fr) = take n m \<and>
           bytes_of (data fr) = take (n - length (take n m)) d \<and>
           flags_follows fr = (drop n m \<noteq> [] \<or> drop (n - length (take n m)) d \<noteq> [])"
    and "logical_frame f' = logical_frame f"
    and "fragment_size_bytes f' = fragment_size_bytes f"
    and "generator f' =
           (if drop n m \<noteq> [] \<or> drop (n - length (take n m)) d \<noteq> []
            then Remaining (drop n m) (drop (n - length (take n m)) d) else Exhausted)"
  using assms by (auto simp: next_fragment_def Let_def bytes_of_def)

lemma cache_append_first:
  assumes "cache (stream_id fr) = None"
  shows "cache_append cache fr =
           (if flags_follows fr then (Inr None, cache(stream_id fr \<mapsto> fr))
            else (Inr (Some fr), cache))"
  using assms by (simp add: cache_append_def)

lemma cache_append_continuation:
  assumes "cache (stream_id fr) = Some acc"
    and "frame_class fr = PAYLOAD \<or> frame_class fr = frame_class acc"
  shows "\<exists>c. bytes_of (data c) = bytes_of (data acc) @ bytes_of (data fr) \<and>
              bytes_of (metadata c) = bytes_of (metadata acc) @ bytes_of (metadata fr) \<and>
              frame_class c = frame_class acc \<and>
              cache_append cache fr =
                (if flags_follows fr then (Inr None, cache(stream_id fr \<mapsto> c))
                 else (Inr (Some c), cache(stream_id fr := None)))"
  using assms
  by (intro exI [of _ "acc\<lparr> data := join (data acc) (data fr),
                               metadata := join (metadata acc) (metadata fr),
                               flags_follows := flags_follows fr \<rparr>"])
     (auto simp: cache_append_def Let_def bytes_of_join)

lemma cache_append_contradiction:
  assumes "cache (stream_id fr) = Some acc"
    and "frame_class fr \<noteq> PAYLOAD" and "frame_class fr \<noteq> frame_class acc"
  shows "cache_append cache fr = (Inl RSocketFrameFragmentDifferentType, cache)"
  using assms by (simp add: cache_append_def)

lemma slices_progress:
  assumes "0 < (n::nat)"
    and "drop n m \<noteq> [] \<or> drop (n - length (take n m)) d \<noteq> []"
  shows "length (drop n m) + length (drop (n - length (take n m)) d) < length m + length d"
proof (cases "m = []")
  case True
  with assms show ?thesis by simp
next
  case False
  with assms(1) have "length (drop n m) < length m" by simp
  moreover have "length (drop (n - length (take n m)) d) \<le> length d" by simp
  ultimately show ?thesis by linarith
qed

lemma slices_whole:
  assumes "\<not> (drop n m \<noteq> [] \<or> drop (n - length (take n m)) d \<noteq> [])"
  shows "take n m = m" and "take (n - length (take n m)) d = d"
  using assms by simp_all

lemma continuation_round_trip:
  assumes "0 < fragment_size_bytes f"
    and "generator f = Remaining m d"
    and "cache (stream_id (logical_frame f)) = Some acc"
  shows "\<exists>fs fr. all_fragments f = Some fs \<and>
            append_all cache comb fs
              = (Inr (Some fr), cache(stream_id (logical_frame f) := None)) \<and>
            bytes_of (data fr) = bytes_of (data acc) @ d \<and>
            bytes_of (metadata fr) = bytes_of (metadata acc) @ m \<and>
            frame_class fr = frame_class acc"
  using assms
proof (induction "length m + length d" arbitrary: f cache acc comb m d rule: less_induct)
  case less
  define n where "n = fragment_size_bytes f"
  define sid where "sid = stream_id (logical_frame f)"
  define follows where "follows = (drop n m \<noteq> [] \<or> drop (n - length (take n m)) d \<noteq> [])"
  obtain r f' where nf: "next_fragment f PAYLOAD m d = (r, f')" by (cases "next_fragment f PAYLOAD m d")
  from next_fragment_props [OF nf n_def]
  obtain fr0 where r: "r = Some fr0" and cls: "frame_class fr0 = PAYLOAD"
    and sid0: "stream_id fr0 = sid"
    and md0: "bytes_of (metadata fr0) = take n m"
    and dt0: "bytes_of (data fr0) = take (n - length (take n m)) d"
    and fl0: "flags_follows fr0 = follows"
    and lf: "logical_frame f' = logical_frame f"
    and sz: "fragment_size_bytes f' = fragment_size_bytes f"
    and gen: "generator f' =
           (if follows then Remaining (drop n m) (drop (n - length (take n m)) d) else Exhausted)"
    unfolding sid_def follows_def by blast
  have g: "get_next_fragment f = (Some fr0, f')"
    using less.prems(2) nf r by (simp add: get_next_fragment_def)
  have acc: "cache (stream_id fr0) = Some acc"
    using less.prems(3) sid0 sid_def by simp
  from cache_append_continuation [of cache fr0 acc] acc cls
  obtain c where cd: "bytes_of (data c) = bytes_of (data acc) @ bytes_of (data fr0)"
    and cm: "bytes_of (metadata c) = bytes_of (metadata acc) @ bytes_of (metadata fr0)"
    and cc: "frame_class c = frame_class acc"
    and ca: "cache_append cache fr0 =
                (if flags_follows fr0 then (Inr None, cache(stream_id fr0 \<mapsto> c))
                 else (Inr (Some c), cache(stream_id fr0 := None)))"
    by blast
  show ?case
  proof (cases follows)
    case True
    let ?m' = "drop n m" and ?d' = "drop (n - length (take n m)) d"
    let ?cache' = "cache(sid \<mapsto> c)"
    have lt: "length ?m' + length ?d' < length m + length d"
      using slices_progress [of n m d] less.prems(1) True
      unfolding n_def follows_def by simp
    have p1: "0 < fragment_size_bytes f'" using sz less.prems(1) by simp
    have p2: "generator f' = Remaining ?m' ?d'" using gen True by simp
    have p3: "?cache' (stream_id (logical_frame f')) = Some c" using lf sid_def by simp
    from less.hyps [where m = ?m' and d = ?d' and f = f' and cache = ?cache' and acc = c
                      and comb = None, OF lt p1 p2 p3]
    obtain fs fr where a1: "all_fragments f' = Some fs"
      and a2: "append_all ?cache' None fs
                 = (Inr (Some fr), ?cache'(stream_id (logical_frame f') := None))"
      and a3: "bytes_of (data fr) = bytes_of (data c) @ ?d'"
      and a4: "bytes_of (metadata fr) = bytes_of (metadata c) @ ?m'"
      and a5: "frame_class fr = frame_class c"
      by blast
    have b1: "all_fragments f = Some (fr0 # fs)"
      using all_fragments_Some [OF g] a1 by simp
    have b2: "append_all cache comb (fr0 # fs)
                = (Inr (Some fr), cache(stream_id (logical_frame f) := None))"
      using ca fl0 True sid0 a2 lf sid_def by simp
    have b3: "bytes_of (data fr) = bytes_of (data acc) @ d"
      using a3 cd dt0 by simp
    have b4: "bytes_of (metadata fr) = bytes_of (metadata acc) @ m"
      using a4 cm md0 by simp
    have b5: "frame_class fr = frame_class acc" using a5 cc by simp
    from b1 b2 b3 b4 b5 show ?thesis by blast
  next
    case False
    then have w: "take n m = m" "take (n - length (take n m)) d = d"
      using slices_whole [of n m d] unfolding follows_def by simp_all
    have e: "generator f' = Exhausted" using gen False by simp
    have b1: "all_fragments f = Some [fr0]"
      using all_fragments_Some [OF g] all_fragments_Exhausted [OF e] by simp
    have b2: "append_all cache comb [fr0]
                = (Inr (Some c), cache(stream_id (logical_frame f) := None))"
      using ca fl0 False sid0 sid_def by simp
    have b3: "bytes_of (data c) = bytes_of (data acc) @ d"
      using cd dt0 w by simp
    have b4: "bytes_of (metadata c) = bytes_of (metadata acc) @ m"
      using cm md0 w by simp
    from b1 b2 b3 b4 cc show ?thesis by blast
  qed
qed

text \<open>
  C3.  For every frame (any data and metadata, present or absent), every fragment size
  of at least 3 and a cache that holds nothing for the frame's stream: the loop over
  \<open>get_next_fragment\<close> ends with a list of fragments, and appending them in order to
  the cache ends with a combined frame of the frame's type whose data and metadata are
  those of the frame (an absent section counting as empty); the cache is as before.
\<close>

theorem fragmentation_round_trip:
  assumes "3 \<le> n" and "cache (stream_id frame) = None"
  shows "\<exists>fs fr. all_fragments (fragmentable frame n) = Some fs \<and>
            append_all cache None fs = (Inr (Some fr), cache) \<and>
            bytes_of (data fr) = bytes_of (data frame) \<and>
            bytes_of (metadata fr) = bytes_of (metadata frame) \<and>
            frame_class fr = frame_class frame"
proof -
  define f where "f = fragmentable frame n"
  define m where "m = bytes_of (metadata frame)"
  define d where "d = bytes_of (data frame)"
  define follows where "follows = (drop n m \<noteq> [] \<or> drop (n - length (take n m)) d \<noteq> [])"
  have fn: "fragment_size_bytes f = n" and fl: "logical_frame f = frame"
    and fg: "generator f = Not_started"
    by (simp_all add: f_def fragmentable_def)
  obtain r f' where nf: "next_fragment f (frame_class frame) m d = (r, f')"
    by (cases "next_fragment f (frame_class frame) m d")
  from next_fragment_props [OF nf fn [symmetric]]
  obtain fr0 where r: "r = Some fr0" and cls: "frame_class fr0 = frame_class frame"
    and sid0: "stream_id fr0 = stream_id frame"
    and md0: "bytes_of (metadata fr0) = take n m"
    and dt0: "bytes_of (data fr0) = take (n - length (take n m)) d"
    and fl0: "flags_follows fr0 = follows"
    and lf: "logical_frame f' = frame"
    and sz: "fragment_size_bytes f' = n"
    and gen: "generator f' =
           (if follows then Remaining (drop n m) (drop (n - length (take n m)) d) else Exhausted)"
    unfolding follows_def fl fn by blast
  have g: "get_next_fragment f = (Some fr0, f')"
    using fg nf r by (simp add: get_next_fragment_def fl m_def d_def)
  have none: "cache (stream_id fr0) = None" using assms(2) sid0 by simp
  have ca: "cache_append cache fr0 =
              (if follows then (Inr None, cache(stream_id frame \<mapsto> fr0))
               else (Inr (Some fr0), cache))"
    using cache_append_first [of cache fr0] none fl0 sid0 by simp
  have same: "cache(stream_id frame := None) = cache"
    using assms(2) by (simp add: fun_upd_idem_iff)
  show ?thesis
  proof (cases follows)
    case True
    let ?m' = "drop n m" and ?d' = "drop (n - length (take n m)) d"
    let ?cache' = "cache(stream_id frame \<mapsto> fr0)"
    have p1: "0 < fragment_size_bytes f'" using sz assms(1) by simp
    have p2: "generator f' = Remaining ?m' ?d'" using gen True by simp
    have p3: "?cache' (stream_id (logical_frame f')) = Some fr0" using lf by simp
    from continuation_round_trip
           [where f = f' and m = ?m' and d = ?d' and cache = ?cache' and acc = fr0
              and comb = None, OF p1 p2 p3]
    obtain fs fr where a1: "all_fragments f' = Some fs"
      and a2: "append_all ?cache' None fs
                 = (Inr (Some fr), ?cache'(stream_id (logical_frame f') := None))"
      and a3: "bytes_of (data fr) = bytes_of (data fr0) @ ?d'"
      and a4: "bytes_of (metadata fr) = bytes_of (metadata fr0) @ ?m'"
      and a5: "frame_class fr = frame_class fr0"
      by blast
    have b1: "all_fragments f = Some (fr0 # fs)"
      using all_fragments_Some [OF g] a1 by simp
    have b2: "append_all cache None (fr0 # fs) = (Inr (Some fr), cache)"
      using ca True a2 lf same by simp
    have b3: "bytes_of (data fr) = bytes_of (data frame)"
      using a3 dt0 by (simp add: d_def)
    have b4: "bytes_of (metadata fr) = bytes_of (metadata frame)"
      using a4 md0 by (simp add: m_def)
    have b5: "frame_class fr = frame_class frame" using a5 cls by simp
    from b1 b2 b3 b4 b5 show ?thesis unfolding f_def by blast
  next
    case False
    then have w: "take n m = m" "take (n - length (take n m)) d = d"
      using slices_whole [of n m d] unfolding follows_def by simp_all
    have e: "generator f' = Exhausted" using gen False by simp
    have b1: "all_fragments f = Some [fr0]"
      using all_fragments_Some [OF g] all_fragments_Exhausted [OF e] by simp
    have b2: "append_all cache None [fr0] = (Inr (Some fr0), cache)"
      using ca False by simp
    have b3: "bytes_of (data fr0) = bytes_of (data frame)"
      using dt0 w by (simp add: d_def)
    have b4: "bytes_of (metadata fr0) = bytes_of (metadata frame)"
      using md0 w by (simp add: m_def)
    from b1 b2 b3 b4 cls show ?thesis unfolding f_def by blast
  qed
qed

theorem fragmentation_round_trip_witness:
  "\<exists>fs fr. all_fragments (fragmentable (payload_frame ''123abc'' ''456def'') 4) = Some fs \<and>
      append_all Map.empty None fs = (Inr (Some fr), Map.empty) \<and>
      bytes_of (data fr) = ''123abc'' \<and> bytes_of (metadata fr) = ''456def'' \<and>
      frame_class fr = PAYLOAD"
proof -
  let ?frame = "payload_frame ''123abc'' ''456def''"
  have h: "(3::nat) \<le> 4" "Map.empty (stream_id ?frame) = None"
    by simp_all
  have e: "bytes_of (data ?frame) = ''123abc''" "bytes_of (metadata ?frame) = ''456def''"
    "frame_class ?frame = PAYLOAD"
    by (simp_all add: payload_frame_def bytes_of_def)
  from fragmentation_round_trip [where frame = ?frame and n = 4 and cache = Map.empty, OF h]
  show ?thesis unfolding e .
qed

section \<open>The fragment tests\<close>

text \<open>
  C4.  The frame with data \<open>123abc89\<close> and metadata \<open>456def\<close>, at fragment size 3, gives
  exactly five fragments: two of metadata, three of data, all but the last with
  FOLLOWS; the cache puts them together to the data and metadata of the frame.
\<close>

theorem fragment_boundary_scenario:
  "\<exists>fs fr.
     all_fragments (fragmentable (payload_frame ''123abc89'' ''456def'') 3) = Some fs \<and>
     length fs = 5 \<and>
     map (\<lambda>x. (bytes_of (metadata x), bytes_of (data x), flags_follows x)) fs
       = [(''456'', [], True), (''def'', [], True), ([], ''123'', True),
          ([], ''abc'', True), ([], ''89'', False)] \<and>
     append_all Map.empty None fs = (Inr (Some fr), Map.empty) \<and>
     data fr = Some ''123abc89'' \<and> metadata fr = Some ''456def''"
proof -
  let ?frame = "payload_frame ''123abc89'' ''456def''"
  let ?f0 = "fragmentable ?frame 3"
  let ?fr1 = "?frame\<lparr>data := Some [], metadata := Some ''456'', flags_follows := True\<rparr>"
  let ?f1 = "?f0\<lparr>generator := Remaining ''def'' ''123abc89''\<rparr>"
  let ?fr2 = "?frame\<lparr>data := Some [], metadata := Some ''def'', flags_follows := True\<rparr>"
  let ?f2 = "?f0\<lparr>generator := Remaining [] ''123abc89''\<rparr>"
  let ?fr3 = "?frame\<lparr>data := Some ''123'', metadata := None, flags_follows := True\<rparr>"
  let ?f3 = "?f0\<lparr>generator := Remaining [] ''abc89''\<rparr>"
  let ?fr4 = "?frame\<lparr>data := Some ''abc'', metadata := None, flags_follows := True\<rparr>"
  let ?f4 = "?f0\<lparr>generator := Remaining [] ''89''\<rparr>"
  let ?fr5 = "?frame\<lparr>data := Some ''89'', metadata := None, flags_follows := False\<rparr>"
  let ?f5 = "?f0\<lparr>generator := Exhausted\<rparr>"
  let ?fs = "[?fr1, ?fr2, ?fr3, ?fr4, ?fr5]"
  have g1: "get_next_fragment ?f0 = (Some ?fr1, ?f1)"
    by (simp add: get_next_fragment_def next_fragment_def fragmentable_def payload_frame_def
          bytes_of_def Let_def)
  have g2: "get_next_fragment ?f1 = (Some ?fr2, ?f2)"
    by (simp add: get_next_fragment_def next_fragment_def fragmentable_def payload_frame_def
          bytes_of_def Let_def)
  have g3: "get_next_fragment ?f2 = (Some ?fr3, ?f3)"
    by (simp add: get_next_fragment_def next_fragment_def fragmentable_def payload_frame_def
          bytes_of_def Let_def)
  have g4: "get_next_fragment ?f3 = (Some ?fr4, ?f4)"
    by (simp add: get_next_fragment_def next_fragment_def fragmentable_def payload_frame_def
          bytes_of_def Let_def)
  have g5: "get_next_fragment ?f4 = (Some ?fr5, ?f5)"
    by (simp add: get_next_fragment_def next_fragment_def fragmentable_def payload_frame_def
          bytes_of_def Let_def)
  have a5: "all_fragments ?f5 = Some []"
    by (rule all_fragments_Exhausted) simp
  have a4: "all_fragments ?f4 = Some [?fr5]"
    unfolding all_fragments_Some [OF g5] a5 by simp
  have a3: "all_fragments ?f3 = Some [?fr4, ?fr5]"
    unfolding all_fragments_Some [OF g4] a4 by simp
  have a2: "all_fragments ?f2 = Some [?fr3, ?fr4, ?fr5]"
    unfolding all_fragments_Some [OF g3] a3 by simp
  have a1: "all_fragments ?f1 = Some [?fr2, ?fr3, ?fr4, ?fr5]"
    unfolding all_fragments_Some [OF g2] a2 by simp
  have a0: "all_fragments ?f0 = Some ?fs"
    unfolding all_fragments_Some [OF g1] a1 by simp
  have l: "length ?fs = 5" by simp
  have m: "map (\<lambda>x. (bytes_of (metadata x), bytes_of (data x), flags_follows x)) ?fs
       = [(''456'', [], True), (''def'', [], True), ([], ''123'', True),
          ([], ''abc'', True), ([], ''89'', False)]"
    by (simp add: bytes_of_def payload_frame_def)
  let ?fr = "?frame\<lparr>data := Some ''123abc89'', metadata := Some ''456def'',
                      flags_follows := False\<rparr>"
  have c: "append_all Map.empty None ?fs = (Inr (Some ?fr), Map.empty)"
    by (simp add: cache_append_def payload_frame_def join_def bytes_of_def Let_def)
  have d: "data ?fr = Some ''123abc89''" "metadata ?fr = Some ''456def''"
    by simp_all
  show ?thesis
    by (rule exI [of _ ?fs], rule exI [of _ ?fr], intro conjI)
       (rule a0, rule l, rule m, rule c, rule d(1), rule d(2))
qed

lemma append_all_continuations:
  assumes "cache sid = Some acc"
    and "\<forall>x \<in> set cs. frame_class x = PAYLOAD \<and> flags_follows x \<and> stream_id x = sid"
  shows "\<exists>acc'. append_all cache comb cs
                   = (Inr (if cs = [] then comb else None), cache(sid \<mapsto> acc')) \<and>
                 frame_class acc' = frame_class acc \<and>
                 bytes_of (data acc')
                   = bytes_of (data acc) @ concat (map (\<lambda>x. bytes_of (data x)) cs) \<and>
                 bytes_of (metadata acc')
                   = bytes_of (metadata acc) @ concat (map (\<lambda>x. bytes_of (metadata x)) cs)"
  using assms
proof (induction cs arbitrary: cache acc comb)
  case Nil
  have "cache(sid \<mapsto> acc) = cache" using Nil.prems(1) by (simp add: map_upd_triv)
  then show ?case by (intro exI [of _ acc]) simp
next
  case (Cons x cs)
  have x: "frame_class x = PAYLOAD" "flags_follows x" "stream_id x = sid"
    using Cons.prems(2) by simp_all
  have a: "cache (stream_id x) = Some acc" using Cons.prems(1) x(3) by simp
  from cache_append_continuation [of cache x acc] a x(1)
  obtain c where cd: "bytes_of (data c) = bytes_of (data acc) @ bytes_of (data x)"
    and cm: "bytes_of (metadata c) = bytes_of (metadata acc) @ bytes_of (metadata x)"
    and cc: "frame_class c = frame_class acc"
    and ca: "cache_append cache x =
                (if flags_follows x then (Inr None, cache(stream_id x \<mapsto> c))
                 else (Inr (Some c), cache(stream_id x := None)))"
    by blast
  let ?cache' = "cache(sid \<mapsto> c)"
  have s: "append_all cache comb (x # cs) = append_all ?cache' None cs"
    using ca x(2,3) by simp
  have p1: "?cache' sid = Some c" by simp
  have p2: "\<forall>y \<in> set cs. frame_class y = PAYLOAD \<and> flags_follows y \<and> stream_id y = sid"
    using Cons.prems(2) by simp
  from Cons.IH [where cache = ?cache' and acc = c and comb = None, OF p1 p2]
  obtain acc' where
    r: "append_all ?cache' None cs = (Inr (if cs = [] then None else None), ?cache'(sid \<mapsto> acc'))"
    and f: "frame_class acc' = frame_class c"
    and d: "bytes_of (data acc') = bytes_of (data c) @ concat (map (\<lambda>x. bytes_of (data x)) cs)"
    and m: "bytes_of (metadata acc')
              = bytes_of (metadata c) @ concat (map (\<lambda>x. bytes_of (metadata x)) cs)"
    by blast
  have r': "append_all cache comb (x # cs)
              = (Inr (if x # cs = [] then comb else None), cache(sid \<mapsto> acc'))"
    using s r by simp
  have f': "frame_class acc' = frame_class acc" using f cc by simp
  have d': "bytes_of (data acc')
              = bytes_of (data acc) @ concat (map (\<lambda>x. bytes_of (data x)) (x # cs))"
    using d cd by simp
  have m': "bytes_of (metadata acc')
              = bytes_of (metadata acc) @ concat (map (\<lambda>x. bytes_of (metadata x)) (x # cs))"
    using m cm by simp
  show ?case
    by (rule exI [of _ acc'], intro conjI) (rule r', rule f', rule d', rule m')
qed

text \<open>
  C5, as amended.  Let a frame with FOLLOWS start a sequence on a stream that the cache
  holds nothing for, followed by any number of PAYLOAD fragments with FOLLOWS on that
  stream.  The cache then returns nothing yet and holds an accumulated frame of the
  first frame's type.  A further fragment on the stream

  \<^item> whose type differs from the first frame's and is not PAYLOAD raises
    \<open>RSocketFrameFragmentDifferentType\<close>, with or without FOLLOWS, and the cache keeps
    what it had accumulated;
  \<^item> that is a PAYLOAD frame is accepted, whatever the first frame's type: with FOLLOWS
    it continues the sequence, without FOLLOWS it completes it, and the combined frame
    has the first frame's type and the data and metadata of all fragments in order.
\<close>

theorem fragment_type_mismatch:
  assumes "cache (stream_id first) = None" and "flags_follows first"
    and "\<forall>x \<in> set continuations.
           frame_class x = PAYLOAD \<and> flags_follows x \<and> stream_id x = stream_id first"
    and "stream_id fragment = stream_id first"
  shows "\<exists>acc cache'.
           append_all cache None (first # continuations) = (Inr None, cache') \<and>
           cache' (stream_id first) = Some acc \<and>
           frame_class acc = frame_class first \<and>
           (frame_class fragment \<noteq> frame_class first \<and> frame_class fragment \<noteq> PAYLOAD \<longrightarrow>
              cache_append cache' fragment = (Inl RSocketFrameFragmentDifferentType, cache')) \<and>
           (frame_class fragment = PAYLOAD \<longrightarrow>
              (\<exists>combined.
                 frame_class combined = frame_class first \<and>
                 bytes_of (data combined)
                   = bytes_of (data first)
                     @ concat (map (\<lambda>x. bytes_of (data x)) continuations)
                     @ bytes_of (data fragment) \<and>
                 bytes_of (metadata combined)
                   = bytes_of (metadata first)
                     @ concat (map (\<lambda>x. bytes_of (metadata x)) continuations)
                     @ bytes_of (metadata fragment) \<and>
                 cache_append cache' fragment =
                   (if flags_follows fragment
                      then (Inr None, cache'(stream_id first \<mapsto> combined))
                    else (Inr (Some combined), cache'(stream_id first := None)))))"
proof -
  let ?sid = "stream_id first"
  let ?cache0 = "cache(?sid \<mapsto> first)"
  have h: "cache_append cache first = (Inr None, ?cache0)"
    using cache_append_first [of cache first] assms(1,2) by simp
  have p1: "?cache0 ?sid = Some first" by simp
  from append_all_continuations [where cache = ?cache0 and comb = None, OF p1 assms(3)]
  obtain acc where
    r: "append_all ?cache0 None continuations
          = (Inr (if continuations = [] then None else None), ?cache0(?sid \<mapsto> acc))"
    and f: "frame_class acc = frame_class first"
    and d: "bytes_of (data acc)
              = bytes_of (data first) @ concat (map (\<lambda>x. bytes_of (data x)) continuations)"
    and m: "bytes_of (metadata acc)
              = bytes_of (metadata first)
                @ concat (map (\<lambda>x. bytes_of (metadata x)) continuations)"
    by blast
  let ?cache' = "?cache0(?sid \<mapsto> acc)"
  have a1: "append_all cache None (first # continuations) = (Inr None, ?cache')"
    using h r by simp
  have a2: "?cache' ?sid = Some acc" by simp
  have k: "?cache' (stream_id fragment) = Some acc" using assms(4) by simp
  have a4: "frame_class fragment \<noteq> frame_class first \<and> frame_class fragment \<noteq> PAYLOAD \<longrightarrow>
              cache_append ?cache' fragment = (Inl RSocketFrameFragmentDifferentType, ?cache')"
    using cache_append_contradiction [of ?cache' fragment acc] k f by simp
  have a5: "frame_class fragment = PAYLOAD \<longrightarrow>
              (\<exists>combined.
                 frame_class combined = frame_class first \<and>
                 bytes_of (data combined)
                   = bytes_of (data first)
                     @ concat (map (\<lambda>x. bytes_of (data x)) continuations)
                     @ bytes_of (data fragment) \<and>
                 bytes_of (metadata combined)
                   = bytes_of (metadata first)
                     @ concat (map (\<lambda>x. bytes_of (metadata x)) continuations)
                     @ bytes_of (metadata fragment) \<and>
                 cache_append ?cache' fragment =
                   (if flags_follows fragment
                      then (Inr None, ?cache'(stream_id first \<mapsto> combined))
                    else (Inr (Some combined), ?cache'(stream_id first := None))))"
  proof
    assume pl: "frame_class fragment = PAYLOAD"
    from cache_append_continuation [of ?cache' fragment acc] k pl
    obtain c where cd: "bytes_of (data c) = bytes_of (data acc) @ bytes_of (data fragment)"
      and cm: "bytes_of (metadata c) = bytes_of (metadata acc) @ bytes_of (metadata fragment)"
      and cc: "frame_class c = frame_class acc"
      and ca: "cache_append ?cache' fragment =
                (if flags_follows fragment then (Inr None, ?cache'(stream_id fragment \<mapsto> c))
                 else (Inr (Some c), ?cache'(stream_id fragment := None)))"
      by blast
    have c1: "frame_class c = frame_class first" using cc f by simp
    have c2: "bytes_of (data c)
                = bytes_of (data first)
                  @ concat (map (\<lambda>x. bytes_of (data x)) continuations)
                  @ bytes_of (data fragment)"
      using cd d by simp
    have c3: "bytes_of (metadata c)
                = bytes_of (metadata first)
                  @ concat (map (\<lambda>x. bytes_of (metadata x)) continuations)
                  @ bytes_of (metadata fragment)"
      using cm m by simp
    have c4: "cache_append ?cache' fragment =
                (if flags_follows fragment then (Inr None, ?cache'(stream_id first \<mapsto> c))
                 else (Inr (Some c), ?cache'(stream_id first := None)))"
      using ca assms(4) by simp
    show "\<exists>combined.
                 frame_class combined = frame_class first \<and>
                 bytes_of (data combined)
                   = bytes_of (data first)
                     @ concat (map (\<lambda>x. bytes_of (data x)) continuations)
                     @ bytes_of (data fragment) \<and>
                 bytes_of (metadata combined)
                   = bytes_of (metadata first)
                     @ concat (map (\<lambda>x. bytes_of (metadata x)) continuations)
                     @ bytes_of (metadata fragment) \<and>
                 cache_append ?cache' fragment =
                   (if flags_follows fragment
                      then (Inr None, ?cache'(stream_id first \<mapsto> combined))
                    else (Inr (Some combined), ?cache'(stream_id first := None)))"
      by (rule exI [of _ c], intro conjI) (rule c1, rule c2, rule c3, rule c4)
  qed
  show ?thesis
    by (rule exI [of _ acc], rule exI [of _ ?cache'], intro conjI)
       (rule a1, rule a2, rule f, rule a4, rule a5)
qed

theorem fragment_type_mismatch_witness:
  "append_all Map.empty None [first_frame, continuation_frame]
     = (Inr None, [0 \<mapsto> first_frame\<lparr>data := Some ''123456''\<rparr>]) \<and>
   cache_append [0 \<mapsto> first_frame\<lparr>data := Some ''123456''\<rparr>] (second_frame REQUEST_CHANNEL)
     = (Inl RSocketFrameFragmentDifferentType, [0 \<mapsto> first_frame\<lparr>data := Some ''123456''\<rparr>]) \<and>
   (\<exists>combined. frame_class combined = REQUEST_RESPONSE \<and>
      bytes_of (data combined) = ''123456123'' \<and>
      cache_append [0 \<mapsto> first_frame\<lparr>data := Some ''123456''\<rparr>] (second_frame PAYLOAD)
        = (Inr (Some combined), Map.empty))"
proof -
  let ?X = "[0 \<mapsto> first_frame\<lparr>data := Some ''123456''\<rparr>]"
  have e: "append_all Map.empty None [first_frame, continuation_frame] = (Inr None, ?X)"
    by (simp add: cache_append_def first_frame_def continuation_frame_def join_def
          bytes_of_def Let_def)
  have h: "Map.empty (stream_id first_frame) = None" "flags_follows first_frame"
    "\<forall>x \<in> set [continuation_frame].
       frame_class x = PAYLOAD \<and> flags_follows x \<and> stream_id x = stream_id first_frame"
    by (simp_all add: first_frame_def continuation_frame_def)
  have s: "stream_id (second_frame cls) = stream_id first_frame" for cls
    by (simp add: first_frame_def second_frame_def)
  have v: "stream_id first_frame = 0" "frame_class first_frame = REQUEST_RESPONSE"
    "bytes_of (data first_frame) = ''123''" "bytes_of (data continuation_frame) = ''456''"
    "frame_class (second_frame cls) = cls" "\<not> flags_follows (second_frame cls)"
    "bytes_of (data (second_frame cls)) = ''123''" for cls
    by (simp_all add: first_frame_def second_frame_def continuation_frame_def bytes_of_def)
  from fragment_type_mismatch [OF h s, of REQUEST_CHANNEL]
  obtain acc cache' where
    a: "append_all Map.empty None [first_frame, continuation_frame] = (Inr None, cache')"
    and "cache' (stream_id first_frame) = Some acc"
    and b: "frame_class (second_frame REQUEST_CHANNEL) \<noteq> frame_class first_frame \<and>
            frame_class (second_frame REQUEST_CHANNEL) \<noteq> PAYLOAD \<longrightarrow>
            cache_append cache' (second_frame REQUEST_CHANNEL)
              = (Inl RSocketFrameFragmentDifferentType, cache')"
    by blast
  from a e have c1: "cache' = ?X" by simp
  have w1: "cache_append ?X (second_frame REQUEST_CHANNEL)
              = (Inl RSocketFrameFragmentDifferentType, ?X)"
    using b unfolding c1 by (simp add: v)
  from fragment_type_mismatch [OF h s, of PAYLOAD]
  obtain acc2 cache2 where
    a2: "append_all Map.empty None [first_frame, continuation_frame] = (Inr None, cache2)"
    and "cache2 (stream_id first_frame) = Some acc2"
    and b2: "frame_class (second_frame PAYLOAD) = PAYLOAD \<longrightarrow>
       (\<exists>combined.
          frame_class combined = frame_class first_frame \<and>
          bytes_of (data combined)
            = bytes_of (data first_frame)
              @ concat (map (\<lambda>x. bytes_of (data x)) [continuation_frame])
              @ bytes_of (data (second_frame PAYLOAD)) \<and>
          bytes_of (metadata combined)
            = bytes_of (metadata first_frame)
              @ concat (map (\<lambda>x. bytes_of (metadata x)) [continuation_frame])
              @ bytes_of (metadata (second_frame PAYLOAD)) \<and>
          cache_append cache2 (second_frame PAYLOAD) =
            (if flags_follows (second_frame PAYLOAD)
               then (Inr None, cache2(stream_id first_frame \<mapsto> combined))
             else (Inr (Some combined), cache2(stream_id first_frame := None))))"
    by blast
  from a2 e have c2: "cache2 = ?X" by simp
  from b2 obtain combined where
    k1: "frame_class combined = REQUEST_RESPONSE"
    and k2: "bytes_of (data combined) = ''123456123''"
    and k3: "cache_append ?X (second_frame PAYLOAD) = (Inr (Some combined), Map.empty)"
    unfolding c2 by (auto simp: v)
  have w2: "\<exists>combined. frame_class combined = REQUEST_RESPONSE \<and>
      bytes_of (data combined) = ''123456123'' \<and>
      cache_append ?X (second_frame PAYLOAD) = (Inr (Some combined), Map.empty)"
    using k1 k2 k3 by blast
  show ?thesis by (intro conjI) (rule e, rule w1, rule w2)
qed

text \<open>
  C5, as stated, fails for the continuation frames that fragmentation itself produces:
  after a REQUEST_RESPONSE frame with FOLLOWS, a PAYLOAD frame (a different frame type)
  on the same stream is accepted and completes the REQUEST_RESPONSE frame.
\<close>

theorem fragment_type_mismatch_counterexample:
  "cache_append Map.empty first_frame = (Inr None, [0 \<mapsto> first_frame]) \<and>
   stream_id (second_frame PAYLOAD) = stream_id first_frame \<and>
   frame_class (second_frame PAYLOAD) \<noteq> frame_class first_frame \<and>
   cache_append [0 \<mapsto> first_frame] (second_frame PAYLOAD)
     = (Inr (Some (first_frame\<lparr>data := Some ''123123'', flags_follows := False\<rparr>)),
        Map.empty)"
  by (simp add: cache_append_def first_frame_def second_frame_def join_def bytes_of_def
        Let_def)

end
